theory Spec2Isabelle
  imports Main "HOL-Library.Sublist" "HOL-Library.AList" "HOL-Library.Multiset"
begin

section \<open>Strings of the C++ standard library\<close>

text \<open>
  A \<open>std::string\<close> is a \<open>char list\<close>. A position result of type \<open>size_t\<close> that
  may be \<open>std::string::npos\<close> is a \<open>nat option\<close>, with \<open>None\<close> for \<open>npos\<close>.
\<close>

fun find_first :: "string \<Rightarrow> string \<Rightarrow> nat option" where
  "find_first pat [] = (if pat = [] then Some 0 else None)"
| "find_first pat (c # cs) =
     (if prefix pat (c # cs) then Some 0 else map_option Suc (find_first pat cs))"

definition str_find :: "string \<Rightarrow> string \<Rightarrow> nat \<Rightarrow> nat option" where
  \<comment> \<open>\<open>s.find(pat, pos)\<close>\<close>
  "str_find s pat pos =
     (if length s < pos then None else map_option ((+) pos) (find_first pat (drop pos s)))"

definition chr_find :: "string \<Rightarrow> char \<Rightarrow> nat \<Rightarrow> nat option" where
  \<comment> \<open>\<open>s.find(c, pos)\<close>\<close>
  "chr_find s c pos = str_find s [c] pos"

fun last_index :: "char \<Rightarrow> string \<Rightarrow> nat \<Rightarrow> nat option \<Rightarrow> nat option" where
  "last_index c [] i acc = acc"
| "last_index c (x # xs) i acc = last_index c xs (Suc i) (if x = c then Some i else acc)"

definition chr_rfind :: "string \<Rightarrow> char \<Rightarrow> nat option" where
  \<comment> \<open>\<open>s.rfind(c)\<close>\<close>
  "chr_rfind s c = last_index c s 0 None"

definition substr :: "string \<Rightarrow> nat \<Rightarrow> nat \<Rightarrow> string" where
  \<comment> \<open>\<open>s.substr(pos, n)\<close>, for \<open>pos \<le> s.size()\<close>\<close>
  "substr s pos n = take n (drop pos s)"

definition substr_from :: "string \<Rightarrow> nat \<Rightarrow> string" where
  \<comment> \<open>\<open>s.substr(pos)\<close>, for \<open>pos \<le> s.size()\<close>\<close>
  "substr_from s pos = drop pos s"

definition starts_with :: "string \<Rightarrow> string \<Rightarrow> bool" where
  \<comment> \<open>\<open>s.find(pat) == 0\<close>\<close>
  "starts_with s pat = (str_find s pat 0 = Some 0)"

definition contains :: "string \<Rightarrow> string \<Rightarrow> bool" where
  \<comment> \<open>\<open>s.find(pat) != std::string::npos\<close>\<close>
  "contains s pat = (str_find s pat 0 \<noteq> None)"

definition dquote :: char where
  "dquote = CHR 0x22"

definition backslash :: char where
  "backslash = CHR 0x5C"

definition is_trim_char :: "char \<Rightarrow> bool" where
  \<comment> \<open>membership in the set \<open>" \\t\\r\\n"\<close> used by \<open>trim\<close>\<close>
  "is_trim_char c = (c = CHR '' '' \<or> c = CHR 0x09 \<or> c = CHR 0x0D \<or> c = CHR 0x0A)"

definition isspace :: "char \<Rightarrow> bool" where
  \<comment> \<open>\<open>std::isspace\<close> in the C locale\<close>
  "isspace c = (c = CHR '' '' \<or> c = CHR 0x09 \<or> c = CHR 0x0A \<or> c = CHR 0x0B
               \<or> c = CHR 0x0C \<or> c = CHR 0x0D)"

definition isdigit :: "char \<Rightarrow> bool" where
  \<comment> \<open>\<open>std::isdigit\<close>\<close>
  "isdigit c = (c \<in> set ''0123456789'')"

definition trim :: "string \<Rightarrow> string" where
  \<comment> \<open>from the first to the last character outside \<open>" \\t\\r\\n"\<close>; empty when there is none\<close>
  "trim str = rev (dropWhile is_trim_char (rev (dropWhile is_trim_char str)))"

definition read_word :: "string \<Rightarrow> string \<times> string" where
  \<comment> \<open>\<open>iss >> word\<close>: skip white space, then read up to the next white space;
      the second component is the unread rest of the stream\<close>
  "read_word s =
     (let s1 = dropWhile isspace s
      in (takeWhile (\<lambda>c. \<not> isspace c) s1, dropWhile (\<lambda>c. \<not> isspace c) s1))"

fun to_string :: "nat \<Rightarrow> string" where
  "to_string n =
     (if n < 10 then [char_of (48 + n)] else to_string (n div 10) @ [char_of (48 + n mod 10)])"

declare to_string.simps [simp del]

definition digit_value :: "char \<Rightarrow> int" where
  "digit_value c = int (of_char c) - 48"

definition stoi :: "string \<Rightarrow> int option" where
  \<comment> \<open>\<open>std::stoi\<close> in base 10; \<open>None\<close> when it throws (no digits, or out of the range of \<open>int\<close>)\<close>
  "stoi s =
     (let s1 = dropWhile isspace s;
          neg = (s1 \<noteq> [] \<and> hd s1 = CHR ''-'');
          s2 = (if s1 \<noteq> [] \<and> (hd s1 = CHR ''-'' \<or> hd s1 = CHR ''+'') then tl s1 else s1);
          ds = takeWhile isdigit s2;
          v = foldl (\<lambda>a c. 10 * a + digit_value c) 0 ds;
          r = (if neg then - v else v)
      in if ds = [] then None
         else if r < - 2147483648 \<or> 2147483647 < r then None
         else Some r)"

section \<open>Data model (ExclusionTypes.h)\<close>

datatype ExclusionType = BLOCK | TOGGLE | FSM | CONDITION

datatype ToggleDirection = ZERO_TO_ONE | ONE_TO_ZERO | BOTH

record BlockExclusion =
  blockId :: string
  block_checksum :: string
  sourceCode :: string
  block_annotation :: string

record ToggleExclusion =
  direction :: ToggleDirection
  signalName :: string
  bitIndex :: "int option"
  netDescription :: string
  toggle_annotation :: string

record FsmExclusion =
  fsmName :: string
  fsm_checksum :: string
  fromState :: string
  toState :: string
  transitionId :: string
  fsm_annotation :: string
  isTransition :: bool

record ConditionExclusion =
  conditionId :: string
  cond_checksum :: string
  expression :: string
  parameters :: string
  coverage :: string
  cond_annotation :: string

text \<open>
  A \<open>std::unordered_map\<close> with string keys is an association list: \<open>map_of\<close> is
  \<open>find\<close>, \<open>AList.update\<close> is \<open>m[k] = v\<close> (the value is replaced where the key is, a
  new key is added at the end), so the list holds the keys in the order of their insertion.
  The order in which a range-based \<open>for\<close> visits the keys is left to the library: where
  that order shows in a result (the writer), it is a parameter \<open>iteration\<close>, the function
  that takes the keys in insertion order to the keys in the order of the visit. The
  theorems assume of it only that it returns the same keys.
\<close>

type_synonym 'v umap = "(string \<times> 'v) list"

definition push_back_at :: "string \<Rightarrow> 'v \<Rightarrow> 'v list umap \<Rightarrow> 'v list umap" where
  \<comment> \<open>\<open>m[k].push_back(x)\<close>\<close>
  "push_back_at k x m =
     AList.update k ((case map_of m k of None \<Rightarrow> [] | Some xs \<Rightarrow> xs) @ [x]) m"

record ExclusionScope =
  scopeName :: string
  scope_checksum :: string
  isModule :: bool
  blockExclusions :: "BlockExclusion umap"
  toggleExclusions :: "ToggleExclusion list umap"
  fsmExclusions :: "FsmExclusion list umap"
  conditionExclusions :: "ConditionExclusion umap"

definition new_BlockExclusion :: "string \<Rightarrow> string \<Rightarrow> string \<Rightarrow> string \<Rightarrow> BlockExclusion" where
  "new_BlockExclusion i cs code annot =
     \<lparr>blockId = i, block_checksum = cs, sourceCode = code, block_annotation = annot\<rparr>"

definition new_ToggleExclusion ::
  "ToggleDirection \<Rightarrow> string \<Rightarrow> int option \<Rightarrow> string \<Rightarrow> string \<Rightarrow> ToggleExclusion" where
  "new_ToggleExclusion dir name bitIdx desc annot =
     \<lparr>direction = dir, signalName = name, bitIndex = bitIdx, netDescription = desc,
      toggle_annotation = annot\<rparr>"

definition new_FsmState :: "string \<Rightarrow> string \<Rightarrow> string \<Rightarrow> FsmExclusion" where
  \<comment> \<open>the state constructor \<open>FsmExclusion(name, cs, annot)\<close>\<close>
  "new_FsmState name cs annot =
     \<lparr>fsmName = name, fsm_checksum = cs, fromState = [], toState = [], transitionId = [],
      fsm_annotation = annot, isTransition = False\<rparr>"

definition new_FsmTransition ::
  "string \<Rightarrow> string \<Rightarrow> string \<Rightarrow> string \<Rightarrow> string \<Rightarrow> FsmExclusion" where
  \<comment> \<open>the transition constructor \<open>FsmExclusion(name, from, to, transId, annot)\<close>\<close>
  "new_FsmTransition name frm dst transId annot =
     \<lparr>fsmName = name, fsm_checksum = [], fromState = frm, toState = dst,
      transitionId = transId, fsm_annotation = annot, isTransition = True\<rparr>"

definition new_ConditionExclusion ::
  "string \<Rightarrow> string \<Rightarrow> string \<Rightarrow> string \<Rightarrow> string \<Rightarrow> string \<Rightarrow> ConditionExclusion" where
  "new_ConditionExclusion i cs expr params cov annot =
     \<lparr>conditionId = i, cond_checksum = cs, expression = expr, parameters = params,
      coverage = cov, cond_annotation = annot\<rparr>"

definition new_ExclusionScope :: "string \<Rightarrow> string \<Rightarrow> bool \<Rightarrow> ExclusionScope" where
  "new_ExclusionScope name cs module =
     \<lparr>scopeName = name, scope_checksum = cs, isModule = module, blockExclusions = [],
      toggleExclusions = [], fsmExclusions = [], conditionExclusions = []\<rparr>"

definition addBlockExclusion :: "BlockExclusion \<Rightarrow> ExclusionScope \<Rightarrow> ExclusionScope" where
  "addBlockExclusion e s =
     s\<lparr>blockExclusions := AList.update (blockId e) e (blockExclusions s)\<rparr>"

definition addToggleExclusion :: "ToggleExclusion \<Rightarrow> ExclusionScope \<Rightarrow> ExclusionScope" where
  "addToggleExclusion e s =
     s\<lparr>toggleExclusions := push_back_at (signalName e) e (toggleExclusions s)\<rparr>"

definition addFsmExclusion :: "FsmExclusion \<Rightarrow> ExclusionScope \<Rightarrow> ExclusionScope" where
  "addFsmExclusion e s =
     s\<lparr>fsmExclusions := push_back_at (fsmName e) e (fsmExclusions s)\<rparr>"

definition addConditionExclusion :: "ConditionExclusion \<Rightarrow> ExclusionScope \<Rightarrow> ExclusionScope" where
  "addConditionExclusion e s =
     s\<lparr>conditionExclusions := AList.update (conditionId e) e (conditionExclusions s)\<rparr>"

definition list_sizes :: "'v list umap \<Rightarrow> nat" where
  \<comment> \<open>the loop \<open>for (pair : m) total += pair.second.size()\<close>\<close>
  "list_sizes m = sum_list (map (\<lambda>p. length (snd p)) m)"

definition scope_getTotalExclusionCount :: "ExclusionScope \<Rightarrow> nat" where
  "scope_getTotalExclusionCount s =
     length (blockExclusions s) + length (conditionExclusions s)
       + list_sizes (toggleExclusions s) + list_sizes (fsmExclusions s)"

record ExclusionData =
  fileName :: string
  generatedBy :: string
  formatVersion :: string
  generationDate :: string
  exclusionMode :: string
  scopes :: "ExclusionScope umap"

definition new_ExclusionData :: "string \<Rightarrow> ExclusionData" where
  "new_ExclusionData filename =
     \<lparr>fileName = filename, generatedBy = [], formatVersion = [], generationDate = [],
      exclusionMode = [], scopes = []\<rparr>"

definition scopes_at :: "string \<Rightarrow> ExclusionData \<Rightarrow> ExclusionScope \<times> ExclusionData" where
  \<comment> \<open>\<open>scopes[name]\<close>: the scope stored under the name, default-constructed first when the
      name is new\<close>
  "scopes_at name d =
     (case map_of (scopes d) name of
        Some s \<Rightarrow> (s, d)
      | None \<Rightarrow> (new_ExclusionScope [] [] False,
                 d\<lparr>scopes := AList.update name (new_ExclusionScope [] [] False) (scopes d)\<rparr>))"

definition getOrCreateScope ::
  "string \<Rightarrow> string \<Rightarrow> bool \<Rightarrow> ExclusionData \<Rightarrow> ExclusionScope \<times> ExclusionData" where
  "getOrCreateScope name cs module d =
     (let d1 = (if map_of (scopes d) name = None
                then d\<lparr>scopes := AList.update name (new_ExclusionScope name cs module) (scopes d)\<rparr>
                else d)
      in scopes_at name d1)"

definition put_scope :: "string \<Rightarrow> ExclusionScope \<Rightarrow> ExclusionData \<Rightarrow> ExclusionData" where
  \<comment> \<open>writing through the reference that \<open>scopes[name]\<close> returned\<close>
  "put_scope name s d = d\<lparr>scopes := AList.update name s (scopes d)\<rparr>"

definition merge_blocks ::
  "bool \<Rightarrow> BlockExclusion umap \<Rightarrow> ExclusionScope \<Rightarrow> ExclusionScope" where
  "merge_blocks overwriteExisting src existingScope =
     foldl (\<lambda>es (bid, block).
              if overwriteExisting \<or> map_of (blockExclusions es) bid = None
              then es\<lparr>blockExclusions := AList.update bid block (blockExclusions es)\<rparr>
              else es)
           existingScope src"

definition merge_toggles :: "ToggleExclusion list umap \<Rightarrow> ExclusionScope \<Rightarrow> ExclusionScope" where
  "merge_toggles src existingScope =
     foldl (\<lambda>es (name, toggles). foldl (\<lambda>es1 t. addToggleExclusion t es1) es toggles)
           existingScope src"

definition merge_fsms :: "FsmExclusion list umap \<Rightarrow> ExclusionScope \<Rightarrow> ExclusionScope" where
  "merge_fsms src existingScope =
     foldl (\<lambda>es (name, fsms). foldl (\<lambda>es1 f. addFsmExclusion f es1) es fsms)
           existingScope src"

definition merge_conditions ::
  "bool \<Rightarrow> ConditionExclusion umap \<Rightarrow> ExclusionScope \<Rightarrow> ExclusionScope" where
  "merge_conditions overwriteExisting src existingScope =
     foldl (\<lambda>es (cid, condition).
              if overwriteExisting \<or> map_of (conditionExclusions es) cid = None
              then es\<lparr>conditionExclusions := AList.update cid condition (conditionExclusions es)\<rparr>
              else es)
           existingScope src"

definition merge_scope :: "bool \<Rightarrow> ExclusionScope \<Rightarrow> ExclusionScope \<Rightarrow> ExclusionScope" where
  \<comment> \<open>the \<open>else\<close> branch of \<open>merge\<close>: blocks, toggles, FSMs, conditions, in this order\<close>
  "merge_scope overwriteExisting scope existingScope =
     merge_conditions overwriteExisting (conditionExclusions scope)
       (merge_fsms (fsmExclusions scope)
         (merge_toggles (toggleExclusions scope)
           (merge_blocks overwriteExisting (blockExclusions scope) existingScope)))"

definition merge_step ::
  "bool \<Rightarrow> ExclusionData \<Rightarrow> string \<times> ExclusionScope \<Rightarrow> ExclusionData" where
  "merge_step overwriteExisting d entry =
     (case entry of (name, scope) \<Rightarrow>
        if map_of (scopes d) name = None \<or> overwriteExisting
        then put_scope name scope d
        else (case scopes_at name d of (existingScope, d1) \<Rightarrow>
                put_scope name (merge_scope overwriteExisting scope existingScope) d1))"

definition merge :: "ExclusionData \<Rightarrow> ExclusionData \<Rightarrow> bool \<Rightarrow> ExclusionData" where
  \<comment> \<open>\<open>self.merge(other, overwriteExisting)\<close>, returning the new \<open>self\<close>\<close>
  "merge self other overwriteExisting = foldl (merge_step overwriteExisting) self (scopes other)"

definition getScopeCount :: "ExclusionData \<Rightarrow> nat" where
  "getScopeCount d = length (scopes d)"

definition getTotalExclusionCount :: "ExclusionData \<Rightarrow> nat" where
  "getTotalExclusionCount d = sum_list (map (\<lambda>p. scope_getTotalExclusionCount (snd p)) (scopes d))"

definition getExclusionCountsByType :: "ExclusionData \<Rightarrow> ExclusionType \<Rightarrow> nat" where
  \<comment> \<open>the returned map always holds the four keys, so it is a total function here\<close>
  "getExclusionCountsByType d ty =
     sum_list (map (\<lambda>p. case ty of
                           BLOCK \<Rightarrow> length (blockExclusions (snd p))
                         | CONDITION \<Rightarrow> length (conditionExclusions (snd p))
                         | TOGGLE \<Rightarrow> list_sizes (toggleExclusions (snd p))
                         | FSM \<Rightarrow> list_sizes (fsmExclusions (snd p)))
                   (scopes d))"

section \<open>Parsing engine (ExclusionParser.h, ExclusionParser.cpp)\<close>

record ParserConfig =
  strictMode :: bool
  validateChecksums :: bool
  preserveComments :: bool
  mergeOnLoad :: bool
  maxFileSize :: nat

definition default_ParserConfig :: ParserConfig where
  "default_ParserConfig =
     \<lparr>strictMode = False, validateChecksums = True, preserveComments = True,
      mergeOnLoad = False, maxFileSize = 100 * 1024 * 1024\<rparr>"

record ParseResult =
  success :: bool
  errorMessage :: string
  linesProcessed :: nat
  exclusionsParsed :: nat
  warnings :: "string list"
  exclusionCounts :: "(ExclusionType \<times> nat) list"

definition new_ParseResult :: ParseResult where
  "new_ParseResult =
     \<lparr>success = False, errorMessage = [], linesProcessed = 0, exclusionsParsed = 0,
      warnings = [], exclusionCounts = []\<rparr>"

definition count_of :: "(ExclusionType \<times> nat) list \<Rightarrow> ExclusionType \<Rightarrow> nat" where
  \<comment> \<open>reading \<open>exclusionCounts[ty]\<close>: a key not yet stored reads as zero\<close>
  "count_of m ty = (case map_of m ty of None \<Rightarrow> 0 | Some n \<Rightarrow> n)"

definition count_incr ::
  "ExclusionType \<Rightarrow> (ExclusionType \<times> nat) list \<Rightarrow> (ExclusionType \<times> nat) list" where
  \<comment> \<open>\<open>exclusionCounts[ty]++\<close>\<close>
  "count_incr ty m = AList.update ty (Suc (count_of m ty)) m"

text \<open>
  The parser object. The members \<open>config_\<close>, \<open>data_\<close>, \<open>currentScope_\<close>,
  \<open>currentChecksum_\<close>, \<open>currentIsModule_\<close>, \<open>pendingAnnotation_\<close>,
  \<open>currentLineNumber_\<close> and \<open>lastResult_\<close> keep their names without the trailing
  underscore (\<open>config_\<close> and \<open>data_\<close> become \<open>p_config\<close> and \<open>p_data\<close>). The
  database behind the shared pointer \<open>data_\<close> is held by value; the data manager holds the
  same pointer and is not duplicated.
\<close>

record ExclusionParser =
  p_config :: ParserConfig
  p_data :: ExclusionData
  currentScope :: string
  currentChecksum :: string
  currentIsModule :: bool
  pendingAnnotation :: string
  currentLineNumber :: nat
  lastResult :: ParseResult

definition resetState :: "ExclusionParser \<Rightarrow> ExclusionParser" where
  "resetState p =
     p\<lparr>currentScope := [], currentChecksum := [], currentIsModule := False,
       pendingAnnotation := [], currentLineNumber := 0\<rparr>"

definition new_ExclusionParser :: ExclusionParser where
  "new_ExclusionParser =
     resetState
       \<lparr>p_config = default_ParserConfig, p_data = new_ExclusionData [], currentScope = [],
        currentChecksum = [], currentIsModule = False, pendingAnnotation = [],
        currentLineNumber = 0, lastResult = new_ParseResult\<rparr>"

definition addWarning :: "string \<Rightarrow> ExclusionParser \<Rightarrow> ExclusionParser" where
  "addWarning warning p =
     p\<lparr>lastResult := (lastResult p)\<lparr>warnings := warnings (lastResult p) @ [warning]\<rparr>\<rparr>"

definition createError :: "string \<Rightarrow> ExclusionParser \<Rightarrow> string" where
  "createError message p = ''Line '' @ to_string (currentLineNumber p) @ '': '' @ message"

definition isComment :: "string \<Rightarrow> bool" where
  "isComment line = (starts_with line ''//'' \<or> starts_with line (replicate 50 (CHR ''='')))"

definition checksum_char :: "char \<Rightarrow> bool" where
  \<comment> \<open>the negation of the loop's test \<open>!std::isdigit(c) && c != ' '\<close>\<close>
  "checksum_char c = (isdigit c \<or> c = CHR '' '')"

definition validateChecksum :: "string \<Rightarrow> bool" where
  "validateChecksum cs = (if cs = [] then False else list_all checksum_char cs)"

definition extractQuotedString :: "string \<Rightarrow> nat \<Rightarrow> string \<times> nat" where
  "extractQuotedString line startPos =
     (case chr_find line dquote startPos of
        None \<Rightarrow> ([], length line)
      | Some quoteStart \<Rightarrow>
          (case chr_find line dquote (quoteStart + 1) of
             None \<Rightarrow> ([], length line)
           | Some quoteEnd \<Rightarrow>
               (substr line (quoteStart + 1) (quoteEnd - quoteStart - 1), quoteEnd + 1)))"

definition after_colon :: "string \<Rightarrow> string option" where
  \<comment> \<open>the shared pattern \<open>pos = line.find(':'); if (pos != npos && pos + 1 < line.length())\<close>
      with the value \<open>trim(line.substr(pos + 1))\<close>; \<open>None\<close> when the test fails\<close>
  "after_colon line =
     (case chr_find line (CHR '':'') 0 of
        None \<Rightarrow> None
      | Some pos \<Rightarrow>
          if pos + 1 < length line then Some (trim (substr_from line (pos + 1))) else None)"

definition strip_quotes :: "string \<Rightarrow> string" where
  \<comment> \<open>\<open>if (s.front() == '"' && s.back() == '"') s = s.substr(1, s.length() - 2)\<close>; the
      callers pass the trimmed rest of a trimmed line, which is never empty\<close>
  "strip_quotes s =
     (if s \<noteq> [] \<and> hd s = dquote \<and> last s = dquote then substr s 1 (length s - 2) else s)"

definition parseHeader :: "string \<Rightarrow> ExclusionParser \<Rightarrow> bool \<times> ExclusionParser" where
  "parseHeader line p =
     (if contains line ''Generated By User:'' then
        (True, case after_colon line of None \<Rightarrow> p
               | Some v \<Rightarrow> p\<lparr>p_data := (p_data p)\<lparr>generatedBy := v\<rparr>\<rparr>)
      else if contains line ''Format Version:'' then
        (True, case after_colon line of None \<Rightarrow> p
               | Some v \<Rightarrow> p\<lparr>p_data := (p_data p)\<lparr>formatVersion := v\<rparr>\<rparr>)
      else if contains line ''Date:'' then
        (True, case after_colon line of None \<Rightarrow> p
               | Some v \<Rightarrow> p\<lparr>p_data := (p_data p)\<lparr>generationDate := v\<rparr>\<rparr>)
      else if contains line ''ExclMode:'' then
        (True, case after_colon line of None \<Rightarrow> p
               | Some v \<Rightarrow> p\<lparr>p_data := (p_data p)\<lparr>exclusionMode := v\<rparr>\<rparr>)
      else (False, p))"

definition parseChecksum :: "string \<Rightarrow> ExclusionParser \<Rightarrow> bool \<times> ExclusionParser" where
  "parseChecksum line p =
     (if starts_with line ''CHECKSUM:'' then
        (True, case after_colon line of None \<Rightarrow> p
               | Some v \<Rightarrow>
                   (let p1 = p\<lparr>currentChecksum := strip_quotes v\<rparr>
                    in if validateChecksums (p_config p1) \<and> \<not> validateChecksum (currentChecksum p1)
                       then addWarning (''Invalid checksum format: '' @ currentChecksum p1) p1
                       else p1))
      else (False, p))"

definition parseScope :: "string \<Rightarrow> ExclusionParser \<Rightarrow> bool \<times> ExclusionParser" where
  "parseScope line p =
     (if starts_with line ''INSTANCE:'' then
        (True, case after_colon line of None \<Rightarrow> p
               | Some v \<Rightarrow>
                   (let p1 = p\<lparr>currentScope := v, currentIsModule := False\<rparr>
                    in p1\<lparr>p_data := snd (getOrCreateScope (currentScope p1) (currentChecksum p1)
                                              False (p_data p1))\<rparr>))
      else if starts_with line ''MODULE:'' then
        (True, case after_colon line of None \<Rightarrow> p
               | Some v \<Rightarrow>
                   (let p1 = p\<lparr>currentScope := v, currentIsModule := True\<rparr>
                    in p1\<lparr>p_data := snd (getOrCreateScope (currentScope p1) (currentChecksum p1)
                                              True (p_data p1))\<rparr>))
      else (False, p))"

definition parseAnnotation :: "string \<Rightarrow> ExclusionParser \<Rightarrow> bool \<times> ExclusionParser" where
  "parseAnnotation line p =
     (if starts_with line ''ANNOTATION:'' then
        (True, case after_colon line of None \<Rightarrow> p
               | Some v \<Rightarrow> p\<lparr>pendingAnnotation := strip_quotes v\<rparr>)
      else if starts_with line ''ANNOTATION_BEGIN:'' then
        (True, case after_colon line of None \<Rightarrow> p
               | Some v \<Rightarrow> p\<lparr>pendingAnnotation := strip_quotes v\<rparr>)
      else if starts_with line ''ANNOTATION_END'' then (True, p)
      else (False, p))"

definition in_current_scope ::
  "(ExclusionScope \<Rightarrow> ExclusionScope) \<Rightarrow> ExclusionParser \<Rightarrow> ExclusionParser" where
  \<comment> \<open>the block shared by the five exclusion parsers:
      \<open>if (!currentScope_.empty()) { auto& scope = data_->getOrCreateScope(currentScope_,
      currentChecksum_, currentIsModule_); scope.add...(e); pendingAnnotation_.clear(); }\<close>\<close>
  "in_current_scope add p =
     (if currentScope p \<noteq> [] then
        (case getOrCreateScope (currentScope p) (currentChecksum p) (currentIsModule p) (p_data p)
         of (scope, d1) \<Rightarrow>
            p\<lparr>p_data := put_scope (currentScope p) (add scope) d1, pendingAnnotation := []\<rparr>)
      else p)"

definition end_of_word :: "string \<Rightarrow> string \<Rightarrow> nat" where
  \<comment> \<open>\<open>line.find(word) + word.length()\<close>; the word was read from the line, so it is found
      (were it not, \<open>npos + word.length()\<close> would wrap around to \<open>word.length() - 1\<close>)\<close>
  "end_of_word line word =
     (case str_find line word 0 of Some i \<Rightarrow> i + length word | None \<Rightarrow> length word - 1)"

definition parseBlockExclusion :: "string \<Rightarrow> ExclusionParser \<Rightarrow> bool \<times> ExclusionParser" where
  "parseBlockExclusion line p =
     (if starts_with line ''Block '' then
        (let (keyword, rest) = read_word line;
             (blockId, rest1) = read_word rest;
             (cs, pos1) = extractQuotedString line (end_of_word line blockId);
             (sc, pos2) = extractQuotedString line pos1
         in (True, in_current_scope
                     (addBlockExclusion (new_BlockExclusion blockId cs sc (pendingAnnotation p))) p))
      else (False, p))"

definition npos_min :: "nat option \<Rightarrow> nat option \<Rightarrow> nat option" where
  \<comment> \<open>\<open>std::min\<close> on positions, \<open>npos\<close> being the largest \<open>size_t\<close>\<close>
  "npos_min a b =
     (case a of None \<Rightarrow> b | Some x \<Rightarrow> (case b of None \<Rightarrow> Some x | Some y \<Rightarrow> Some (min x y)))"

definition npos_less :: "nat option \<Rightarrow> nat option \<Rightarrow> bool" where
  \<comment> \<open>\<open><\<close> on positions, \<open>npos\<close> being the largest \<open>size_t\<close>\<close>
  "npos_less a b =
     (case a of None \<Rightarrow> False | Some x \<Rightarrow> (case b of None \<Rightarrow> True | Some y \<Rightarrow> x < y))"

definition parseToggleExclusion :: "string \<Rightarrow> ExclusionParser \<Rightarrow> bool \<times> ExclusionParser" where
  "parseToggleExclusion line p =
     (if starts_with line ''Toggle '' then
        (let remaining0 = trim (substr_from line 7);
             (dir, remaining1) =
               (if starts_with remaining0 ''0to1 '' then (ZERO_TO_ONE, substr_from remaining0 5)
                else if starts_with remaining0 ''1to0 '' then (ONE_TO_ZERO, substr_from remaining0 5)
                else (BOTH, remaining0));
             spacePos = chr_find remaining1 (CHR '' '') 0;
             bracketPos = chr_find remaining1 (CHR ''['') 0;
             endPos = (case npos_min spacePos bracketPos of
                         None \<Rightarrow> length remaining1 | Some e \<Rightarrow> e);
             name = substr remaining1 0 endPos;
             (bitIdx, remaining2) =
               (case bracketPos of
                  Some bp \<Rightarrow>
                    if npos_less bracketPos spacePos then
                      (case chr_find remaining1 (CHR '']'') bp of
                         Some closeBracket \<Rightarrow>
                           (stoi (substr remaining1 (bp + 1) (closeBracket - bp - 1)),
                            substr_from remaining1 (closeBracket + 1))
                       | None \<Rightarrow> (None, remaining1))
                    else (None, substr_from remaining1 endPos)
                | None \<Rightarrow> (None, substr_from remaining1 endPos));
             (desc, pos) = extractQuotedString remaining2 0
         in (True, in_current_scope
                     (addToggleExclusion
                        (new_ToggleExclusion dir name bitIdx desc (pendingAnnotation p))) p))
      else (False, p))"

definition parseFsmExclusion :: "string \<Rightarrow> ExclusionParser \<Rightarrow> bool \<times> ExclusionParser" where
  "parseFsmExclusion line p =
     (if starts_with line ''Fsm '' then
        (let (keyword, rest) = read_word line;
             (name, rest1) = read_word rest;
             (cs, pos) = extractQuotedString line (end_of_word line name)
         in (True, in_current_scope
                     (addFsmExclusion (new_FsmState name cs (pendingAnnotation p))) p))
      else (False, p))"

definition parseConditionExclusion ::
  "string \<Rightarrow> ExclusionParser \<Rightarrow> bool \<times> ExclusionParser" where
  \<comment> \<open>\<open>remaining.front()\<close> of an empty \<open>remaining\<close> reads the terminating zero of the
      string, which is not \<open>'('\<close>, so the test fails there\<close>
  "parseConditionExclusion line p =
     (if starts_with line ''Condition '' then
        (let (keyword, rest) = read_word line;
             (cid, rest1) = read_word rest;
             (cs, pos1) = extractQuotedString line (end_of_word line cid);
             (expr, pos2) = extractQuotedString line pos1;
             (expression1, parameters1) =
               (case chr_rfind expr (CHR '' '') of
                  Some lastSpace \<Rightarrow> (substr expr 0 lastSpace, substr_from expr (lastSpace + 1))
                | None \<Rightarrow> (expr, []));
             remaining = trim (substr_from line pos2);
             coverage1 =
               (if remaining \<noteq> [] \<and> hd remaining = CHR ''('' \<and> last remaining = CHR '')''
                then substr remaining 1 (length remaining - 2) else [])
         in (True, in_current_scope
                     (addConditionExclusion
                        (new_ConditionExclusion cid cs expression1 parameters1 coverage1
                           (pendingAnnotation p))) p))
      else (False, p))"

definition parseTransition :: "string \<Rightarrow> ExclusionParser \<Rightarrow> bool \<times> ExclusionParser" where
  "parseTransition line p =
     (if starts_with line ''Transition '' then
        (let remaining = substr_from line 11
         in case str_find remaining ''->'' 0 of
              None \<Rightarrow> (False, p)
            | Some arrowPos \<Rightarrow>
                (case chr_find remaining (CHR '' '') arrowPos of
                   None \<Rightarrow> (False, p)
                 | Some spacePos \<Rightarrow>
                     (let frm = trim (substr remaining 0 arrowPos);
                          dst = trim (substr remaining (arrowPos + 2) (spacePos - arrowPos - 2));
                          (transId, pos) = extractQuotedString remaining spacePos
                      in (True, in_current_scope
                                  (addFsmExclusion
                                     (new_FsmTransition ''transition'' frm dst transId
                                        (pendingAnnotation p))) p))))
      else (False, p))"

definition counted :: "ExclusionType \<Rightarrow> ParseResult \<Rightarrow> ParseResult" where
  \<comment> \<open>\<open>result.exclusionsParsed++; result.exclusionCounts[ty]++\<close>\<close>
  "counted ty r =
     r\<lparr>exclusionsParsed := exclusionsParsed r + 1,
       exclusionCounts := count_incr ty (exclusionCounts r)\<rparr>"

definition classify ::
  "string \<Rightarrow> ParseResult \<Rightarrow> ExclusionParser \<Rightarrow> bool \<times> ParseResult \<times> ExclusionParser" where
  \<comment> \<open>the chain \<open>if (parseHeader(line)) ... else if (parseChecksum(line)) ...\<close> of
      \<open>parseStream\<close>; the first component is the flag \<open>parsed\<close>. A parser that returns
      \<open>false\<close> has changed nothing.\<close>
  "classify line r p =
     (if fst (parseHeader line p) then (True, r, snd (parseHeader line p))
      else if fst (parseChecksum line p) then (True, r, snd (parseChecksum line p))
      else if fst (parseScope line p) then (True, r, snd (parseScope line p))
      else if fst (parseAnnotation line p) then (True, r, snd (parseAnnotation line p))
      else if fst (parseBlockExclusion line p)
        then (True, counted BLOCK r, snd (parseBlockExclusion line p))
      else if fst (parseToggleExclusion line p)
        then (True, counted TOGGLE r, snd (parseToggleExclusion line p))
      else if fst (parseFsmExclusion line p)
        then (True, counted FSM r, snd (parseFsmExclusion line p))
      else if fst (parseConditionExclusion line p)
        then (True, counted CONDITION r, snd (parseConditionExclusion line p))
      else if fst (parseTransition line p)
        then (True, counted FSM r, snd (parseTransition line p))
      else (False, r, p))"

text \<open>
  One iteration of the loop of \<open>parseStream\<close> on the line just read. \<open>Inr\<close> continues
  with the next line; \<open>Inl\<close> is the \<open>return result\<close> of strict mode, which leaves the
  loop without storing \<open>lastResult_\<close>.
\<close>

definition process_line ::
  "string \<Rightarrow> ParseResult \<times> ExclusionParser
     \<Rightarrow> (ParseResult \<times> ExclusionParser) + (ParseResult \<times> ExclusionParser)" where
  "process_line raw st =
     (case st of (result, p) \<Rightarrow>
        (let p1 = p\<lparr>currentLineNumber := currentLineNumber p + 1\<rparr>;
             r1 = result\<lparr>linesProcessed := linesProcessed result + 1\<rparr>;
             line = trim raw
         in if line = [] then Inr (r1, p1)
            else if isComment line then Inr (r1, p1)
            else (case classify line r1 p1 of (parsed, r2, p2) \<Rightarrow>
                    if parsed then Inr (r2, p2)
                    else (let warning = ''Unrecognized line format at line ''
                                          @ to_string (currentLineNumber p2) @ '': '' @ line;
                              r3 = r2\<lparr>warnings := warnings r2 @ [warning]\<rparr>
                          in if strictMode (p_config p2)
                             then Inl (r3\<lparr>errorMessage :=
                                            createError (''Unrecognized line format: '' @ line) p2\<rparr>,
                                       p2)
                             else Inr (r3, p2)))))"

fun parse_lines ::
  "string list \<Rightarrow> ParseResult \<times> ExclusionParser \<Rightarrow> ParseResult \<times> ExclusionParser" where
  "parse_lines [] st = (case st of (result, p) \<Rightarrow>
     (let r = result\<lparr>success := True\<rparr> in (r, p\<lparr>lastResult := r\<rparr>)))"
| "parse_lines (raw # rest) st =
     (case process_line raw st of Inl out \<Rightarrow> out | Inr st1 \<Rightarrow> parse_lines rest st1)"

definition parseStream :: "string list \<Rightarrow> ExclusionParser \<Rightarrow> ParseResult \<times> ExclusionParser" where
  \<comment> \<open>the stream is the list of the lines that \<open>std::getline\<close> reads from it; none of the
      string operations in the loop can throw, so the \<open>catch\<close> branch has no counterpart\<close>
  "parseStream lines p = parse_lines lines (new_ParseResult, p)"

fun getlines :: "string \<Rightarrow> string \<Rightarrow> string list" where
  \<comment> \<open>the lines of a text as \<open>std::getline\<close> yields them; the first argument holds the
      current line reversed\<close>
  "getlines acc [] = (if acc = [] then [] else [rev acc])"
| "getlines acc (c # cs) =
     (if c = CHR 0x0A then rev acc # getlines [] cs else getlines (c # acc) cs)"

definition parseString :: "string \<Rightarrow> ExclusionParser \<Rightarrow> ParseResult \<times> ExclusionParser" where
  "parseString content p = parseStream (getlines [] content) (resetState p)"

text \<open>
  The file system as \<open>parseFile\<close> sees it: \<open>FileUtils::fileExists\<close>,
  \<open>FileUtils::getFileSize\<close>, and the lines of the file when \<open>std::ifstream\<close> opens it.
\<close>

record FileSystem =
  fileExists :: "string \<Rightarrow> bool"
  getFileSize :: "string \<Rightarrow> nat"
  openFile :: "string \<Rightarrow> string list option"

definition parseFile ::
  "FileSystem \<Rightarrow> string \<Rightarrow> ExclusionParser \<Rightarrow> ParseResult \<times> ExclusionParser" where
  "parseFile fs filename p =
     (let result = new_ParseResult;
          p1 = resetState p
      in if \<not> fileExists fs filename
         then (result\<lparr>errorMessage := ''File does not exist: '' @ filename\<rparr>, p1)
         else (let fileSize = getFileSize fs filename
               in if maxFileSize (p_config p1) < fileSize
                  then (result\<lparr>errorMessage :=
                                  ''File too large: '' @ to_string fileSize @ '' bytes (max: ''
                                    @ to_string (maxFileSize (p_config p1)) @ '')''\<rparr>, p1)
                  else (case openFile fs filename of
                          None \<Rightarrow> (result\<lparr>errorMessage := ''Cannot open file: '' @ filename\<rparr>, p1)
                        | Some lines \<Rightarrow>
                            (let p2 = (if \<not> mergeOnLoad (p_config p1)
                                       then p1\<lparr>p_data := new_ExclusionData filename\<rparr> else p1);
                                 p3 = p2\<lparr>p_data := (p_data p2)\<lparr>fileName := filename\<rparr>\<rparr>
                             in parseStream lines p3))))"

section \<open>Wildcard matching (ExclusionData.cpp)\<close>

text \<open>
  \<open>PatternMatcher::matches\<close> builds a \<open>std::regex\<close> (ECMAScript grammar) from the
  pattern and calls \<open>std::regex_match\<close>. The regular expressions that reach the library
  are modelled on this fragment of the grammar: a sequence of atoms, each followed by a
  possibly empty run of the quantifiers \<open>*\<close> and \<open>?\<close>. An atom is an ordinary character,
  a backslash followed by a punctuation or white-space character (an identity escape), or
  the unescaped dot, which stands for any character but a line terminator. The library
  applies the quantifiers of a run one after the other (a \<open>?\<close> after a quantifier may also
  mark it lazy, which does not change what a whole-string match accepts): the run is \<open>*\<close>
  when a \<open>*\<close> is in it and \<open>?\<close> otherwise. A quantifier with no atom before it and a
  backslash at the end are syntax errors, for which the library throws and \<open>matches\<close>
  returns \<open>false\<close>. Anything else (a backslash before a letter or digit, an unescaped
  bracket, parenthesis, brace, anchor, bar or plus sign) is outside the fragment.
\<close>

datatype quantifier = Once | ZeroOrMore | ZeroOrOne

datatype regex_atom = Lit char | AnyChar

datatype regex_token = Atom regex_atom | Quant quantifier | BadEscape | Unsupported

datatype regex_compiled =
    Compiled "(regex_atom \<times> quantifier) list"
  | SyntaxError
  | OutsideFragment

definition is_special_char :: "char \<Rightarrow> bool" where
  \<comment> \<open>the class \<open>[-[\\]{}()+.,\\^$|#\\s]\<close>\<close>
  "is_special_char c = (c \<in> set ''-[]{}()+.,^$|#'' \<or> isspace c)"

definition escape_special :: "string \<Rightarrow> string" where
  \<comment> \<open>\<open>std::regex_replace(pattern, specialChars, R"(\\$&)")\<close>: a backslash before each
      character of the class\<close>
  "escape_special pattern =
     concat (map (\<lambda>c. if is_special_char c then [backslash, c] else [c]) pattern)"

definition replace_char :: "char \<Rightarrow> string \<Rightarrow> string \<Rightarrow> string" where
  \<comment> \<open>\<open>std::regex_replace(s, std::regex("\\\\c"), by)\<close> for a literal character \<open>c\<close>\<close>
  "replace_char c by s = concat (map (\<lambda>x. if x = c then by else [x]) s)"

definition is_identity_escape :: "char \<Rightarrow> bool" where
  "is_identity_escape c = (is_special_char c \<or> c \<in> set ''*?/'' \<or> c = backslash)"

definition plain_token :: "char \<Rightarrow> regex_token" where
  \<comment> \<open>a character that no backslash precedes\<close>
  "plain_token c =
     (if c = CHR ''*'' then Quant ZeroOrMore
      else if c = CHR ''?'' then Quant ZeroOrOne
      else if c = CHR ''.'' then Atom AnyChar
      else if c \<in> set ''^$+()[]{}|'' then Unsupported
      else Atom (Lit c))"

fun regex_tokens :: "string \<Rightarrow> regex_token list" where
  "regex_tokens [] = []"
| "regex_tokens [c] = (if c = backslash then [BadEscape] else [plain_token c])"
| "regex_tokens (c # d # rest) =
     (if c = backslash
      then (if is_identity_escape d then Atom (Lit d) else Unsupported) # regex_tokens rest
      else plain_token c # regex_tokens (d # rest))"

definition quantifier_after :: "quantifier \<Rightarrow> quantifier \<Rightarrow> quantifier" where
  \<comment> \<open>a quantifier applied to an already quantified atom\<close>
  "quantifier_after q q2 = (if q = ZeroOrMore \<or> q2 = ZeroOrMore then ZeroOrMore else ZeroOrOne)"

fun quantifier_runs :: "regex_token list \<Rightarrow> regex_token list" where
  \<comment> \<open>every run of quantifiers as the one quantifier it amounts to\<close>
  "quantifier_runs (Quant q # Quant q2 # ts) = quantifier_runs (Quant (quantifier_after q q2) # ts)"
| "quantifier_runs (t # ts) = t # quantifier_runs ts"
| "quantifier_runs [] = []"

fun with_atom :: "regex_atom \<Rightarrow> quantifier \<Rightarrow> regex_compiled \<Rightarrow> regex_compiled" where
  "with_atom a q (Compiled r) = Compiled ((a, q) # r)"
| "with_atom a q SyntaxError = SyntaxError"
| "with_atom a q OutsideFragment = OutsideFragment"

fun regex_group :: "regex_token list \<Rightarrow> regex_compiled" where
  "regex_group [] = Compiled []"
| "regex_group (Unsupported # ts) = OutsideFragment"
| "regex_group (BadEscape # ts) = SyntaxError"
| "regex_group (Quant q # ts) = SyntaxError"
| "regex_group (Atom a # Quant q # ts) = with_atom a q (regex_group ts)"
| "regex_group (Atom a # ts) = with_atom a Once (regex_group ts)"

definition tolower :: "char \<Rightarrow> char" where
  "tolower c = (if 65 \<le> (of_char c :: nat) \<and> (of_char c :: nat) \<le> 90
                then char_of ((of_char c :: nat) + 32) else c)"

definition char_matches :: "bool \<Rightarrow> regex_atom \<Rightarrow> char \<Rightarrow> bool" where
  \<comment> \<open>an atom against a subject character: a literal is compared, under \<open>icase\<close> when
      the match is not case sensitive; the dot takes all but line feed and carriage return\<close>
  "char_matches caseSensitive a b =
     (case a of
        Lit c \<Rightarrow> (if caseSensitive then c = b else tolower c = tolower b)
      | AnyChar \<Rightarrow> b \<noteq> CHR 0x0A \<and> b \<noteq> CHR 0x0D)"

fun regex_match :: "bool \<Rightarrow> (regex_atom \<times> quantifier) list \<Rightarrow> string \<Rightarrow> bool" where
  "regex_match cs [] s = (s = [])"
| "regex_match cs ((c, Once) # r) [] = False"
| "regex_match cs ((c, Once) # r) (x # xs) = (char_matches cs c x \<and> regex_match cs r xs)"
| "regex_match cs ((c, ZeroOrOne) # r) [] = regex_match cs r []"
| "regex_match cs ((c, ZeroOrOne) # r) (x # xs) =
     (regex_match cs r (x # xs) \<or> (char_matches cs c x \<and> regex_match cs r xs))"
| "regex_match cs ((c, ZeroOrMore) # r) [] = regex_match cs r []"
| "regex_match cs ((c, ZeroOrMore) # r) (x # xs) =
     (regex_match cs r (x # xs) \<or> (char_matches cs c x \<and> regex_match cs ((c, ZeroOrMore) # r) xs))"

definition matches :: "string \<Rightarrow> string \<Rightarrow> bool \<Rightarrow> bool option" where
  \<comment> \<open>\<open>PatternMatcher::matches(pattern, str, caseSensitive)\<close>. The two calls that turn
      \<open>*\<close> into \<open>.*\<close> and \<open>?\<close> into \<open>.\<close> drop their results, so the escaped pattern
      reaches the regex unchanged. \<open>None\<close>: the regex is outside the modelled fragment.\<close>
  "matches pattern str caseSensitive =
     (let regexPattern = escape_special pattern;
          dropped1 = replace_char (CHR ''*'') ''.*'' regexPattern;
          dropped2 = replace_char (CHR ''?'') ''.'' regexPattern
      in case regex_group (quantifier_runs (regex_tokens regexPattern)) of
           Compiled r \<Rightarrow> Some (regex_match caseSensitive r str)
         | SyntaxError \<Rightarrow> Some False
         | OutsideFragment \<Rightarrow> None)"

definition findScopesMatching :: "string \<Rightarrow> ExclusionData \<Rightarrow> string list option" where
  \<comment> \<open>\<open>ExclusionDataManager::findScopesMatching\<close> on the managed database\<close>
  "findScopesMatching pattern d =
     (if list_all (\<lambda>p. matches pattern (fst p) True \<noteq> None) (scopes d)
      then Some (map fst (filter (\<lambda>p. matches pattern (fst p) True = Some True) (scopes d)))
      else None)"

section \<open>Writer (ExclusionWriter.h, ExclusionWriter.cpp)\<close>





definition escapeString :: "string \<Rightarrow> string" where
  \<comment> \<open>every double quote becomes backslash, double quote\<close>
  "escapeString str = concat (map (\<lambda>c. if c = dquote then [backslash, dquote] else [c]) str)"







definition annotation_line :: "string \<Rightarrow> string" where
  "annotation_line annotation = ''ANNOTATION: '' @ [dquote] @ escapeString annotation @ [dquote]"



















section \<open>Auxiliary notions for the statements\<close>

definition holds_block :: "ExclusionData \<Rightarrow> string \<Rightarrow> string \<Rightarrow> BlockExclusion \<Rightarrow> bool" where
  \<comment> \<open>the scope of that name exists and stores exactly this record under the block id\<close>
  "holds_block d name k b =
     (case map_of (scopes d) name of
        None \<Rightarrow> False
      | Some s \<Rightarrow> map_of (blockExclusions s) k = Some b)"

definition holds_condition ::
  "ExclusionData \<Rightarrow> string \<Rightarrow> string \<Rightarrow> ConditionExclusion \<Rightarrow> bool" where
  "holds_condition d name k c =
     (case map_of (scopes d) name of
        None \<Rightarrow> False
      | Some s \<Rightarrow> map_of (conditionExclusions s) k = Some c)"

definition holds_toggles ::
  "ExclusionData \<Rightarrow> string \<Rightarrow> string \<Rightarrow> ToggleExclusion list \<Rightarrow> bool" where
  "holds_toggles d name k ts =
     (case map_of (scopes d) name of
        None \<Rightarrow> False
      | Some s \<Rightarrow> map_of (toggleExclusions s) k = Some ts)"

definition scope_in_use :: "ExclusionParser \<Rightarrow> ExclusionScope" where
  \<comment> \<open>the scope that \<open>getOrCreateScope(currentScope_, currentChecksum_, currentIsModule_)\<close>
      hands to an exclusion parser: the stored one, or a new empty one\<close>
  "scope_in_use p =
     (case map_of (scopes (p_data p)) (currentScope p) of
        Some s \<Rightarrow> s
      | None \<Rightarrow> new_ExclusionScope (currentScope p) (currentChecksum p) (currentIsModule p))"

definition toggles_of :: "ExclusionScope \<Rightarrow> string \<Rightarrow> ToggleExclusion list" where
  \<comment> \<open>the records stored under a signal name, none when the name is absent\<close>
  "toggles_of s name = (case map_of (toggleExclusions s) name of None \<Rightarrow> [] | Some ts \<Rightarrow> ts)"

definition keyword_kind :: "string \<Rightarrow> ExclusionType option" where
  \<comment> \<open>the kind of exclusion that the keyword at the start of a line announces, as the
      grammar has it: \<open>Transition\<close> lines are FSM exclusions\<close>
  "keyword_kind line =
     (if starts_with line ''Block '' then Some BLOCK
      else if starts_with line ''Toggle '' then Some TOGGLE
      else if starts_with line ''Fsm '' then Some FSM
      else if starts_with line ''Condition '' then Some CONDITION
      else if starts_with line ''Transition '' then Some FSM
      else None)"

definition checksum_shape_spec :: "string \<Rightarrow> bool" where
  \<comment> \<open>the specification's wording of the checksum check: every character is a digit or
      a space\<close>
  "checksum_shape_spec cs = list_all checksum_char cs"

section \<open>Documents in the format of the writer\<close>




definition newline :: char where
  "newline = CHR 0x0A"

definition header_free :: "string \<Rightarrow> bool" where
  \<comment> \<open>none of the four header markers occurs in the line, so \<open>parseHeader\<close> leaves it
      to the parsers after it\<close>
  "header_free line =
     (\<not> contains line ''Generated By User:'' \<and> \<not> contains line ''Format Version:''
      \<and> \<not> contains line ''Date:'' \<and> \<not> contains line ''ExclMode:'')"




text \<open>
  What the parser keeps between two lines, apart from its line counter and its last
  result: the current scope, the buffered checksum, the module flag, the pending
  annotation and the database.
\<close>

record session =
  s_scope :: string
  s_checksum :: string
  s_module :: bool
  s_pending :: string
  s_data :: ExclusionData

definition session_of :: "ExclusionParser \<Rightarrow> session" where
  "session_of p =
     \<lparr>s_scope = currentScope p, s_checksum = currentChecksum p, s_module = currentIsModule p,
      s_pending = pendingAnnotation p, s_data = p_data p\<rparr>"

























section \<open>Example inputs\<close>

definition ex_parser :: ExclusionParser where
  \<comment> \<open>a fresh parser that has read the scope declaration \<open>INSTANCE:top\<close>\<close>
  "ex_parser = snd (parseString ''INSTANCE:top'' new_ExclusionParser)"

definition ex_blockA :: BlockExclusion where
  "ex_blockA = new_BlockExclusion ''161'' ''1104666086'' ''x = 0;'' ''kept''"

definition ex_blockB :: BlockExclusion where
  "ex_blockB = new_BlockExclusion ''161'' ''42'' ''y = 1;'' []"

definition ex_condA :: ConditionExclusion where
  "ex_condA = new_ConditionExclusion ''2'' ''111'' ''(a && b)'' ''1'' ''1'' []"

definition ex_condB :: ConditionExclusion where
  "ex_condB = new_ConditionExclusion ''2'' ''222'' ''(c || d)'' ''0'' ''1'' []"

definition ex_scopeA :: ExclusionScope where
  "ex_scopeA =
     addFsmExclusion (new_FsmState ''state'' ''85815111'' [])
       (addToggleExclusion (new_ToggleExclusion BOTH ''clk'' None ''net clk'' [])
         (addConditionExclusion ex_condA
           (addBlockExclusion ex_blockA (new_ExclusionScope ''top'' ''999'' False))))"

definition ex_scopeB :: ExclusionScope where
  "ex_scopeB =
     addFsmExclusion (new_FsmTransition ''transition'' ''IDLE'' ''RUN'' ''0->1'' [])
       (addToggleExclusion (new_ToggleExclusion ZERO_TO_ONE ''clk'' None ''net clk'' [])
         (addToggleExclusion (new_ToggleExclusion ONE_TO_ZERO ''rst'' (Some 3) ''net rst'' [])
           (addConditionExclusion ex_condB
             (addBlockExclusion ex_blockB (new_ExclusionScope ''top'' ''777'' True)))))"

definition ex_scopeC :: ExclusionScope where
  "ex_scopeC =
     addToggleExclusion (new_ToggleExclusion BOTH ''d'' None ''net d'' [])
       (new_ExclusionScope ''tb.cpu'' [] False)"

definition ex_dbA :: ExclusionData where
  "ex_dbA = put_scope ''top'' ex_scopeA (new_ExclusionData ''a.el'')"

definition ex_dbB :: ExclusionData where
  "ex_dbB = put_scope ''tb.cpu'' ex_scopeC (put_scope ''top'' ex_scopeB (new_ExclusionData ''b.el''))"

definition ex_fs :: FileSystem where
  \<comment> \<open>a file system whose every file exists, opens, and is one byte above 100 MB\<close>
  "ex_fs = \<lparr>fileExists = (\<lambda>f. True), getFileSize = (\<lambda>f. 104857601),
            openFile = (\<lambda>f. Some [''INSTANCE:big''])\<rparr>"

definition ex_strict :: ExclusionParser where
  \<comment> \<open>the parser of \<open>ex_parser\<close> in strict mode\<close>
  "ex_strict = ex_parser\<lparr>p_config := (p_config ex_parser)\<lparr>strictMode := True\<rparr>\<rparr>"

definition ex_pending :: ExclusionParser where
  \<comment> \<open>a fresh parser with a pending annotation and no current scope\<close>
  "ex_pending = new_ExclusionParser\<lparr>pendingAnnotation := ''why''\<rparr>"





section \<open>Scope creation\<close>

lemma map_of_update_same: "map_of (AList.update k v m) k = Some v"
  by (simp add: update_conv')

text \<open>
  C8. Whatever the database, the name and the two pairs of checksum and module flag, a
  second \<open>getOrCreateScope\<close> with the same name returns the very scope that the first
  call returned and leaves the database as the first call left it: the scope stored under
  the name keeps the checksum and the module flag it had.
\<close>

theorem getOrCreateScope_idempotent:
  "getOrCreateScope name cs2 m2 (snd (getOrCreateScope name cs1 m1 d))
     = getOrCreateScope name cs1 m1 d
   \<and> map_of (scopes (snd (getOrCreateScope name cs1 m1 d))) name
       = Some (fst (getOrCreateScope name cs1 m1 d))"
  by (cases "map_of (scopes d) name")
     (simp_all add: getOrCreateScope_def scopes_at_def Let_def map_of_update_same)

theorem getOrCreateScope_idempotent_witness:
  "getOrCreateScope ''top'' ''222'' True
       (snd (getOrCreateScope ''top'' ''111'' False (new_ExclusionData [])))
     = (new_ExclusionScope ''top'' ''111'' False,
        put_scope ''top'' (new_ExclusionScope ''top'' ''111'' False) (new_ExclusionData []))"
  using getOrCreateScope_idempotent [of "''top''" "''222''" True "''111''" False "new_ExclusionData []"]
  by (simp add: getOrCreateScope_def scopes_at_def new_ExclusionData_def put_scope_def)


section \<open>Merging\<close>


lemma list_sizes_update_append:
  "list_sizes (AList.update k ((case map_of m k of None \<Rightarrow> [] | Some xs \<Rightarrow> xs) @ [x]) m)
     = Suc (list_sizes m)"
  by (induction m) (auto simp: list_sizes_def)

lemma list_sizes_push_back_at: "list_sizes (push_back_at k x m) = Suc (list_sizes m)"
  by (simp add: push_back_at_def list_sizes_update_append)

lemma list_sizes_Nil: "list_sizes [] = 0"
  by (simp add: list_sizes_def)

lemma list_sizes_Cons: "list_sizes (p # m) = length (snd p) + list_sizes m"
  by (simp add: list_sizes_def)

lemma foldl_addToggle:
  "foldl (\<lambda>es t. addToggleExclusion t es) es ts
     = es\<lparr>toggleExclusions := foldl (\<lambda>m t. push_back_at (signalName t) t m) (toggleExclusions es) ts\<rparr>"
  by (induction ts arbitrary: es) (simp_all add: addToggleExclusion_def)

lemma foldl_addFsm:
  "foldl (\<lambda>es t. addFsmExclusion t es) es ts
     = es\<lparr>fsmExclusions := foldl (\<lambda>m t. push_back_at (fsmName t) t m) (fsmExclusions es) ts\<rparr>"
  by (induction ts arbitrary: es) (simp_all add: addFsmExclusion_def)

lemma list_sizes_foldl_push:
  "list_sizes (foldl (\<lambda>m t. push_back_at (key t) t m) m ts) = list_sizes m + length ts"
  by (induction ts arbitrary: m) (simp_all add: list_sizes_push_back_at)

lemma merge_toggles_fields:
  "blockExclusions (merge_toggles src es) = blockExclusions es"
  "fsmExclusions (merge_toggles src es) = fsmExclusions es"
  "conditionExclusions (merge_toggles src es) = conditionExclusions es"
  "list_sizes (toggleExclusions (merge_toggles src es)) = list_sizes (toggleExclusions es) + list_sizes src"
  unfolding merge_toggles_def
  by (induction src arbitrary: es;
      simp add: foldl_addToggle list_sizes_foldl_push list_sizes_Nil list_sizes_Cons split_def)+

lemma merge_fsms_fields:
  "blockExclusions (merge_fsms src es) = blockExclusions es"
  "toggleExclusions (merge_fsms src es) = toggleExclusions es"
  "conditionExclusions (merge_fsms src es) = conditionExclusions es"
  "list_sizes (fsmExclusions (merge_fsms src es)) = list_sizes (fsmExclusions es) + list_sizes src"
  unfolding merge_fsms_def
  by (induction src arbitrary: es;
      simp add: foldl_addFsm list_sizes_foldl_push list_sizes_Nil list_sizes_Cons split_def)+

lemma merge_blocks_fields:
  "toggleExclusions (merge_blocks ow src es) = toggleExclusions es"
  "fsmExclusions (merge_blocks ow src es) = fsmExclusions es"
  "conditionExclusions (merge_blocks ow src es) = conditionExclusions es"
  unfolding merge_blocks_def
  by (induction src arbitrary: es; simp add: split_def)+

lemma merge_conditions_fields:
  "toggleExclusions (merge_conditions ow src es) = toggleExclusions es"
  "fsmExclusions (merge_conditions ow src es) = fsmExclusions es"
  "blockExclusions (merge_conditions ow src es) = blockExclusions es"
  unfolding merge_conditions_def
  by (induction src arbitrary: es; simp add: split_def)+

lemma merge_blocks_keeps:
  "map_of (blockExclusions es) k = Some b
   \<Longrightarrow> map_of (blockExclusions (merge_blocks False src es)) k = Some b"
  unfolding merge_blocks_def
proof (induction src arbitrary: es)
  case Nil
  then show ?case by simp
next
  case (Cons p src)
  let ?es = "if False \<or> map_of (blockExclusions es) (fst p) = None
             then es\<lparr>blockExclusions := AList.update (fst p) (snd p) (blockExclusions es)\<rparr>
             else es"
  from Cons.prems have "map_of (blockExclusions ?es) k = Some b"
    by (auto simp: update_conv')
  from Cons.IH [OF this] show ?case
    by (simp add: split_def)
qed

lemma merge_conditions_keeps:
  "map_of (conditionExclusions es) k = Some c
   \<Longrightarrow> map_of (conditionExclusions (merge_conditions False src es)) k = Some c"
  unfolding merge_conditions_def
proof (induction src arbitrary: es)
  case Nil
  then show ?case by simp
next
  case (Cons p src)
  let ?es = "if False \<or> map_of (conditionExclusions es) (fst p) = None
             then es\<lparr>conditionExclusions := AList.update (fst p) (snd p) (conditionExclusions es)\<rparr>
             else es"
  from Cons.prems have "map_of (conditionExclusions ?es) k = Some c"
    by (auto simp: update_conv')
  from Cons.IH [OF this] show ?case
    by (simp add: split_def)
qed

lemma merge_scope_toggles:
  "list_sizes (toggleExclusions (merge_scope ow scope es))
     = list_sizes (toggleExclusions es) + list_sizes (toggleExclusions scope)"
  by (simp add: merge_scope_def merge_conditions_fields merge_fsms_fields merge_toggles_fields
        merge_blocks_fields)

lemma merge_scope_fsms:
  "list_sizes (fsmExclusions (merge_scope ow scope es))
     = list_sizes (fsmExclusions es) + list_sizes (fsmExclusions scope)"
  by (simp add: merge_scope_def merge_conditions_fields merge_fsms_fields merge_toggles_fields
        merge_blocks_fields)

lemma merge_scope_keeps_block:
  "map_of (blockExclusions es) k = Some b
   \<Longrightarrow> map_of (blockExclusions (merge_scope False scope es)) k = Some b"
  by (simp add: merge_scope_def merge_conditions_fields merge_fsms_fields merge_toggles_fields
        merge_blocks_keeps)

lemma merge_scope_keeps_condition:
  "map_of (conditionExclusions es) k = Some c
   \<Longrightarrow> map_of (conditionExclusions (merge_scope False scope es)) k = Some c"
  by (simp add: merge_scope_def merge_conditions_keeps merge_fsms_fields merge_toggles_fields
        merge_blocks_fields)

lemma sum_update_absent:
  "map_of m k = None \<Longrightarrow> (\<Sum>p\<leftarrow>AList.update k v m. F (snd p)) = (\<Sum>p\<leftarrow>m. F (snd p)) + (F v :: nat)"
  by (induction m) (auto split: if_splits)

lemma sum_update_present:
  "map_of m k = Some old \<Longrightarrow> F v = F old + (g::nat)
   \<Longrightarrow> (\<Sum>p\<leftarrow>AList.update k v m. F (snd p)) = (\<Sum>p\<leftarrow>m. F (snd p)) + g"
  by (induction m) (auto split: if_splits)

lemma merge_step_toggles:
  "getExclusionCountsByType (merge_step False d (name, scope)) TOGGLE
     = getExclusionCountsByType d TOGGLE + list_sizes (toggleExclusions scope)"
proof (cases "map_of (scopes d) name")
  case None
  then show ?thesis
    by (simp add: merge_step_def put_scope_def getExclusionCountsByType_def
          sum_update_absent [where F = "\<lambda>s. list_sizes (toggleExclusions s)"])
next
  case (Some old)
  then show ?thesis
    by (simp add: merge_step_def put_scope_def scopes_at_def getExclusionCountsByType_def
          sum_update_present [where old = old and F = "\<lambda>s. list_sizes (toggleExclusions s)"]
          merge_scope_toggles)
qed

lemma merge_step_fsms:
  "getExclusionCountsByType (merge_step False d (name, scope)) FSM
     = getExclusionCountsByType d FSM + list_sizes (fsmExclusions scope)"
proof (cases "map_of (scopes d) name")
  case None
  then show ?thesis
    by (simp add: merge_step_def put_scope_def getExclusionCountsByType_def
          sum_update_absent [where F = "\<lambda>s. list_sizes (fsmExclusions s)"])
next
  case (Some old)
  then show ?thesis
    by (simp add: merge_step_def put_scope_def scopes_at_def getExclusionCountsByType_def
          sum_update_present [where old = old and F = "\<lambda>s. list_sizes (fsmExclusions s)"]
          merge_scope_fsms)
qed

lemma foldl_merge_step_toggles:
  "getExclusionCountsByType (foldl (merge_step False) d ss) TOGGLE
     = getExclusionCountsByType d TOGGLE + (\<Sum>p\<leftarrow>ss. list_sizes (toggleExclusions (snd p)))"
  by (induction ss arbitrary: d) (auto simp: merge_step_toggles)

lemma foldl_merge_step_fsms:
  "getExclusionCountsByType (foldl (merge_step False) d ss) FSM
     = getExclusionCountsByType d FSM + (\<Sum>p\<leftarrow>ss. list_sizes (fsmExclusions (snd p)))"
  by (induction ss arbitrary: d) (auto simp: merge_step_fsms)

lemma merge_step_holds_block:
  "holds_block d name k b \<Longrightarrow> holds_block (merge_step False d e) name k b"
  by (cases e)
     (auto simp: holds_block_def merge_step_def put_scope_def scopes_at_def update_conv'
        merge_scope_keeps_block split: option.splits)

lemma merge_step_holds_condition:
  "holds_condition d name k c \<Longrightarrow> holds_condition (merge_step False d e) name k c"
  by (cases e)
     (auto simp: holds_condition_def merge_step_def put_scope_def scopes_at_def update_conv'
        merge_scope_keeps_condition split: option.splits)

lemma foldl_holds_block:
  "holds_block d name k b \<Longrightarrow> holds_block (foldl (merge_step False) d ss) name k b"
  by (induction ss arbitrary: d) (simp_all add: merge_step_holds_block)

lemma foldl_holds_condition:
  "holds_condition d name k c \<Longrightarrow> holds_condition (foldl (merge_step False) d ss) name k c"
  by (induction ss arbitrary: d) (simp_all add: merge_step_holds_condition)


text \<open>
  C5. Merging \<open>B\<close> into \<open>A\<close> without overwriting keeps every block record and
  every condition record of \<open>A\<close> whose id also occurs in the scope of the same name in
  \<open>B\<close>, unchanged, and the toggle count and the FSM count of \<open>A\<close> grow by exactly
  the counts of \<open>B\<close>.
\<close>

theorem merge_keeps_and_appends:
  "(map_of (scopes A) name = Some sa \<and> map_of (scopes B) name = Some sb
      \<and> map_of (blockExclusions sa) bid = Some b \<and> map_of (blockExclusions sb) bid = Some b'
      \<longrightarrow> holds_block (merge A B False) name bid b)
   \<and> (map_of (scopes A) name = Some sa \<and> map_of (scopes B) name = Some sb
      \<and> map_of (conditionExclusions sa) cid = Some c
      \<and> map_of (conditionExclusions sb) cid = Some c'
      \<longrightarrow> holds_condition (merge A B False) name cid c)
   \<and> getExclusionCountsByType (merge A B False) TOGGLE
       = getExclusionCountsByType A TOGGLE + getExclusionCountsByType B TOGGLE
   \<and> getExclusionCountsByType (merge A B False) FSM
       = getExclusionCountsByType A FSM + getExclusionCountsByType B FSM"
proof (intro conjI impI)
  assume h: "map_of (scopes A) name = Some sa \<and> map_of (scopes B) name = Some sb
      \<and> map_of (blockExclusions sa) bid = Some b \<and> map_of (blockExclusions sb) bid = Some b'"
  then have "holds_block A name bid b"
    by (simp add: holds_block_def)
  then show "holds_block (merge A B False) name bid b"
    unfolding merge_def by (rule foldl_holds_block)
next
  assume h: "map_of (scopes A) name = Some sa \<and> map_of (scopes B) name = Some sb
      \<and> map_of (conditionExclusions sa) cid = Some c
      \<and> map_of (conditionExclusions sb) cid = Some c'"
  then have "holds_condition A name cid c"
    by (simp add: holds_condition_def)
  then show "holds_condition (merge A B False) name cid c"
    unfolding merge_def by (rule foldl_holds_condition)
next
  show "getExclusionCountsByType (merge A B False) TOGGLE
       = getExclusionCountsByType A TOGGLE + getExclusionCountsByType B TOGGLE"
    unfolding merge_def foldl_merge_step_toggles
    by (simp add: getExclusionCountsByType_def)
next
  show "getExclusionCountsByType (merge A B False) FSM
       = getExclusionCountsByType A FSM + getExclusionCountsByType B FSM"
    unfolding merge_def foldl_merge_step_fsms
    by (simp add: getExclusionCountsByType_def)
qed

lemmas ex_db_defs =
  ex_dbA_def ex_dbB_def ex_scopeA_def ex_scopeB_def ex_scopeC_def ex_blockA_def ex_blockB_def
  ex_condA_def ex_condB_def put_scope_def new_ExclusionData_def new_ExclusionScope_def
  addBlockExclusion_def addConditionExclusion_def addToggleExclusion_def addFsmExclusion_def
  push_back_at_def new_BlockExclusion_def new_ConditionExclusion_def new_ToggleExclusion_def
  new_FsmState_def new_FsmTransition_def

theorem merge_keeps_and_appends_witness:
  "map_of (scopes ex_dbA) ''top'' = Some ex_scopeA
   \<and> map_of (scopes ex_dbB) ''top'' = Some ex_scopeB
   \<and> map_of (blockExclusions ex_scopeA) ''161'' = Some ex_blockA
   \<and> map_of (blockExclusions ex_scopeB) ''161'' = Some ex_blockB
   \<and> map_of (conditionExclusions ex_scopeA) ''2'' = Some ex_condA
   \<and> map_of (conditionExclusions ex_scopeB) ''2'' = Some ex_condB
   \<and> ex_blockA \<noteq> ex_blockB \<and> ex_condA \<noteq> ex_condB
   \<and> holds_block (merge ex_dbA ex_dbB False) ''top'' ''161'' ex_blockA
   \<and> holds_condition (merge ex_dbA ex_dbB False) ''top'' ''2'' ex_condA
   \<and> getExclusionCountsByType ex_dbA TOGGLE = 1
   \<and> getExclusionCountsByType ex_dbB TOGGLE = 3
   \<and> getExclusionCountsByType (merge ex_dbA ex_dbB False) TOGGLE = 4
   \<and> getExclusionCountsByType ex_dbA FSM = 1
   \<and> getExclusionCountsByType ex_dbB FSM = 1
   \<and> getExclusionCountsByType (merge ex_dbA ex_dbB False) FSM = 2"
proof -
  have hyps:
    "map_of (scopes ex_dbA) ''top'' = Some ex_scopeA"
    "map_of (scopes ex_dbB) ''top'' = Some ex_scopeB"
    "map_of (blockExclusions ex_scopeA) ''161'' = Some ex_blockA"
    "map_of (blockExclusions ex_scopeB) ''161'' = Some ex_blockB"
    "map_of (conditionExclusions ex_scopeA) ''2'' = Some ex_condA"
    "map_of (conditionExclusions ex_scopeB) ''2'' = Some ex_condB"
    by (simp_all add: ex_db_defs)
  have diff: "ex_blockA \<noteq> ex_blockB" "ex_condA \<noteq> ex_condB"
    by (simp_all add: ex_db_defs)
  have counts:
    "getExclusionCountsByType ex_dbA TOGGLE = 1" "getExclusionCountsByType ex_dbB TOGGLE = 3"
    "getExclusionCountsByType ex_dbA FSM = 1" "getExclusionCountsByType ex_dbB FSM = 1"
    by (simp_all add: getExclusionCountsByType_def list_sizes_def ex_db_defs)
  from merge_keeps_and_appends [of ex_dbA "''top''" ex_scopeA ex_dbB ex_scopeB "''161''"
      ex_blockA ex_blockB "''2''" ex_condA ex_condB] hyps diff counts
  show ?thesis by simp
qed

section \<open>Wildcard matching\<close>

lemmas matches_eval =
  matches_def escape_special_def is_special_char_def isspace_def backslash_def plain_token_def
  char_matches_def is_identity_escape_def quantifier_after_def

text \<open>
  C3. The escaped pattern reaches the regex with \<open>*\<close> and \<open>?\<close> still in it, where they
  are quantifiers of the preceding character, not wildcards. So
  \<open>matches("tb.*.core", "tb.cpu0.core")\<close> and \<open>matches("a?c", "abc")\<close> are false, where
  the claim has true; the two negative examples of the claim are false in the code as
  well. The regex that \<open>a?c\<close> becomes accepts \<open>c\<close> and \<open>ac\<close> instead, and no scope
  named \<open>tb.cpu0.core\<close> is found by the pattern \<open>tb.*.core\<close>.
\<close>

theorem matches_keeps_wildcards_as_quantifiers:
  "matches ''tb.*.core'' ''tb.cpu0.core'' True = Some False
   \<and> matches ''a?c'' ''abc'' True = Some False
   \<and> matches ''tb.*.core'' ''tb.cpu0.io'' True = Some False
   \<and> matches ''a?c'' ''abcc'' True = Some False
   \<and> matches ''a?c'' ''c'' True = Some True
   \<and> matches ''a?c'' ''ac'' True = Some True
   \<and> findScopesMatching ''tb.*.core''
         (snd (getOrCreateScope ''tb.cpu0.core'' [] False (new_ExclusionData []))) = Some []"
  by (simp add: matches_eval findScopesMatching_def getOrCreateScope_def scopes_at_def
        new_ExclusionData_def)

section \<open>Exclusion lines inside a scope\<close>

lemmas string_eval =
  starts_with_def contains_def str_find_def chr_find_def read_word_def extractQuotedString_def
  end_of_word_def chr_rfind_def substr_def substr_from_def trim_def is_trim_char_def
  isspace_def dquote_def npos_min_def npos_less_def Let_def

lemma in_current_scope_stores:
  assumes "currentScope p \<noteq> []"
  shows "map_of (scopes (p_data (in_current_scope add p))) (currentScope p)
           = Some (add (scope_in_use p))"
  using assms
  by (cases "map_of (scopes (p_data p)) (currentScope p)")
     (simp_all add: in_current_scope_def getOrCreateScope_def scopes_at_def put_scope_def
        update_conv' scope_in_use_def)

lemma in_current_scope_clears:
  "currentScope p \<noteq> [] \<Longrightarrow> pendingAnnotation (in_current_scope add p) = []"
  by (simp add: in_current_scope_def split_def)

lemma in_current_scope_keeps_scope:
  "currentScope (in_current_scope add p) = currentScope p"
  by (simp add: in_current_scope_def split_def)

lemma not_isComment:
  "line \<noteq> [] \<Longrightarrow> hd line \<noteq> CHR ''/'' \<Longrightarrow> hd line \<noteq> CHR ''='' \<Longrightarrow> \<not> isComment line"
  by (cases line) (auto simp: isComment_def starts_with_def str_find_def numeral_eq_Suc)

lemma ex_parser_eval:
  "ex_parser =
     \<lparr>p_config = default_ParserConfig,
      p_data = put_scope ''top'' (new_ExclusionScope ''top'' [] False) (new_ExclusionData []),
      currentScope = ''top'', currentChecksum = [], currentIsModule = False,
      pendingAnnotation = [], currentLineNumber = 1,
      lastResult = new_ParseResult\<lparr>success := True, linesProcessed := 1\<rparr>\<rparr>"
  by (simp add: ex_parser_def parseString_def parseStream_def process_line_def classify_def
        parseHeader_def parseChecksum_def parseScope_def after_colon_def not_isComment
        new_ExclusionParser_def resetState_def getOrCreateScope_def scopes_at_def put_scope_def
        new_ExclusionData_def new_ParseResult_def string_eval)

text \<open>
  C2. With a scope current, the line of Scenario B stores a condition record under the
  id \<open>2\<close> with checksum \<open>111\<close> and coverage \<open>1 "01"\<close>, but the quoted text is split
  at its last space: the expression is \<open>(a && b) 1\<close> and the parameters are \<open>-1\<close>, where
  the claim has \<open>(a && b)\<close> and \<open>1 -1\<close>.
\<close>

theorem parseCondition_splits_at_last_space:
  \<open>currentScope p \<noteq> [] \<Longrightarrow>
   fst (parseConditionExclusion ''Condition 2 "111" "(a && b) 1 -1" (1 "01")'' p)
   \<and> holds_condition
        (p_data (snd (parseConditionExclusion ''Condition 2 "111" "(a && b) 1 -1" (1 "01")'' p)))
        (currentScope p) ''2''
        \<lparr>conditionId = ''2'', cond_checksum = ''111'', expression = ''(a && b) 1'',
         parameters = ''-1'', coverage = ''1 "01"'', cond_annotation = pendingAnnotation p\<rparr>\<close>
proof -
  assume scope: "currentScope p \<noteq> []"
  let ?c = \<open>new_ConditionExclusion ''2'' ''111'' ''(a && b) 1'' ''-1'' ''1 "01"''
              (pendingAnnotation p)\<close>
  have line:
    \<open>parseConditionExclusion ''Condition 2 "111" "(a && b) 1 -1" (1 "01")'' p
       = (True, in_current_scope (addConditionExclusion ?c) p)\<close>
    by (simp add: parseConditionExclusion_def string_eval)
  have "holds_condition (p_data (in_current_scope (addConditionExclusion ?c) p))
          (currentScope p) ''2'' ?c"
    by (simp add: holds_condition_def in_current_scope_stores [OF scope]
          addConditionExclusion_def new_ConditionExclusion_def update_conv')
  with line show ?thesis
    by (simp add: new_ConditionExclusion_def)
qed

theorem parseCondition_splits_at_last_space_witness:
  \<open>currentScope ex_parser \<noteq> []
   \<and> holds_condition
        (p_data (snd (parseConditionExclusion ''Condition 2 "111" "(a && b) 1 -1" (1 "01")''
                        ex_parser)))
        ''top'' ''2''
        \<lparr>conditionId = ''2'', cond_checksum = ''111'', expression = ''(a && b) 1'',
         parameters = ''-1'', coverage = ''1 "01"'', cond_annotation = []\<rparr>\<close>
proof -
  have scope: "currentScope ex_parser \<noteq> []"
    by (simp add: ex_parser_eval)
  from parseCondition_splits_at_last_space [OF scope] scope show ?thesis
    by (simp add: ex_parser_eval)
qed

text \<open>
  C4. With a scope current, \<open>Toggle sig [3] "desc"\<close> stores a record with direction
  \<open>BOTH\<close> and no bit index, where the claim has the bit index 3: the bracket is only read
  when it comes before the first space, as in \<open>Toggle sig[3] "desc"\<close>. The line
  \<open>Toggle sig "desc"\<close> gives direction \<open>BOTH\<close> and no bit index, as the claim has it.
\<close>

theorem parseToggle_misses_spaced_bit_index:
  \<open>currentScope p \<noteq> [] \<Longrightarrow>
   holds_toggles (p_data (snd (parseToggleExclusion ''Toggle sig [3] "desc"'' p)))
     (currentScope p) ''sig''
     (toggles_of (scope_in_use p) ''sig''
      @ [\<lparr>direction = BOTH, signalName = ''sig'', bitIndex = None, netDescription = ''desc'',
          toggle_annotation = pendingAnnotation p\<rparr>])
   \<and> parseToggleExclusion ''Toggle sig "desc"'' p
       = parseToggleExclusion ''Toggle sig [3] "desc"'' p\<close>
proof -
  assume scope: "currentScope p \<noteq> []"
  let ?t = \<open>new_ToggleExclusion BOTH ''sig'' None ''desc'' (pendingAnnotation p)\<close>
  have line:
    \<open>parseToggleExclusion ''Toggle sig [3] "desc"'' p
       = (True, in_current_scope (addToggleExclusion ?t) p)\<close>
    by (simp add: parseToggleExclusion_def string_eval)
  have line2:
    \<open>parseToggleExclusion ''Toggle sig "desc"'' p
       = (True, in_current_scope (addToggleExclusion ?t) p)\<close>
    by (simp add: parseToggleExclusion_def string_eval)
  have "holds_toggles (p_data (in_current_scope (addToggleExclusion ?t) p))
          (currentScope p) ''sig'' (toggles_of (scope_in_use p) ''sig'' @ [?t])"
    by (simp add: holds_toggles_def in_current_scope_stores [OF scope] toggles_of_def
          addToggleExclusion_def push_back_at_def new_ToggleExclusion_def update_conv')
  with line line2 show ?thesis
    by (simp add: new_ToggleExclusion_def)
qed

theorem parseToggle_misses_spaced_bit_index_witness:
  \<open>currentScope ex_parser \<noteq> []
   \<and> holds_toggles (p_data (snd (parseToggleExclusion ''Toggle sig [3] "desc"'' ex_parser)))
       ''top'' ''sig''
       [\<lparr>direction = BOTH, signalName = ''sig'', bitIndex = None, netDescription = ''desc'',
         toggle_annotation = []\<rparr>]
   \<and> holds_toggles (p_data (snd (parseToggleExclusion ''Toggle sig[3] "desc"'' ex_parser)))
       ''top'' ''sig''
       [\<lparr>direction = BOTH, signalName = ''sig'', bitIndex = Some 3, netDescription = ''desc'',
         toggle_annotation = []\<rparr>]\<close>
proof -
  have scope: "currentScope ex_parser \<noteq> []"
    by (simp add: ex_parser_eval)
  have attached:
    \<open>holds_toggles (p_data (snd (parseToggleExclusion ''Toggle sig[3] "desc"'' ex_parser)))
       ''top'' ''sig''
       [\<lparr>direction = BOTH, signalName = ''sig'', bitIndex = Some 3, netDescription = ''desc'',
         toggle_annotation = []\<rparr>]\<close>
    by (simp add: parseToggleExclusion_def string_eval stoi_def isdigit_def digit_value_def
          ex_parser_eval in_current_scope_def getOrCreateScope_def scopes_at_def put_scope_def
          new_ExclusionData_def new_ExclusionScope_def holds_toggles_def addToggleExclusion_def
          push_back_at_def new_ToggleExclusion_def)
  from parseToggle_misses_spaced_bit_index [OF scope] scope attached show ?thesis
    by (simp add: ex_parser_eval scope_in_use_def toggles_of_def put_scope_def
          new_ExclusionData_def new_ExclusionScope_def)
qed

section \<open>The size guard of parseFile\<close>

text \<open>
  C6, as stated, fails: \<open>parseFile\<close> on a file above the maximum does change the state of
  the parser. It resets the per-parse cursor before it looks at the file, so a parser whose
  current scope was \<open>top\<close> has none afterwards, and a \<open>Block\<close> line that \<open>parseStream\<close>
  would have stored under \<open>top\<close> is stored nowhere.
\<close>

theorem parseFile_oversize_resets_cursor:
  \<open>fileExists ex_fs ''big.el''
   \<and> maxFileSize (p_config ex_parser) < getFileSize ex_fs ''big.el''
   \<and> currentScope ex_parser = ''top''
   \<and> currentScope (snd (parseFile ex_fs ''big.el'' ex_parser)) = []
   \<and> getTotalExclusionCount
        (p_data (snd (parseStream [''Block 161 "1104666086" "x = 0;"''] ex_parser))) = 1
   \<and> getTotalExclusionCount
        (p_data (snd (parseStream [''Block 161 "1104666086" "x = 0;"'']
                        (snd (parseFile ex_fs ''big.el'' ex_parser))))) = 0\<close>
proof -
  let ?raw = \<open>''Block 161 "1104666086" "x = 0;"''\<close>
  have failed: "snd (parseFile ex_fs ''big.el'' ex_parser) = resetState ex_parser"
    by (simp add: parseFile_def Let_def ex_fs_def ex_parser_eval default_ParserConfig_def
          resetState_def)
  have t: "trim ?raw = ?raw"
    by (simp add: string_eval)
  have c: "classify ?raw r p
      = (True, counted BLOCK r,
         in_current_scope (addBlockExclusion
            (new_BlockExclusion ''161'' ''1104666086'' ''x = 0;'' (pendingAnnotation p))) p)" for r p
    by (simp add: classify_def parseHeader_def parseChecksum_def parseScope_def
          parseAnnotation_def parseBlockExclusion_def string_eval)
  have step: "process_line ?raw (r, p)
      = Inr (counted BLOCK (r\<lparr>linesProcessed := linesProcessed r + 1\<rparr>),
             in_current_scope (addBlockExclusion
               (new_BlockExclusion ''161'' ''1104666086'' ''x = 0;'' (pendingAnnotation p)))
               (p\<lparr>currentLineNumber := currentLineNumber p + 1\<rparr>))" for r p
    unfolding process_line_def t by (simp add: Let_def not_isComment c)
  have with_scope: "getTotalExclusionCount (p_data (snd (parseStream [?raw] ex_parser))) = 1"
    unfolding parseStream_def
    by (simp add: step Let_def ex_parser_eval in_current_scope_def getOrCreateScope_def
          scopes_at_def put_scope_def new_ExclusionData_def new_ExclusionScope_def
          addBlockExclusion_def new_BlockExclusion_def getTotalExclusionCount_def
          scope_getTotalExclusionCount_def list_sizes_def)
  have without: "getTotalExclusionCount
      (p_data (snd (parseStream [?raw] (snd (parseFile ex_fs ''big.el'' ex_parser))))) = 0"
    unfolding parseStream_def failed
    by (simp add: step Let_def ex_parser_eval in_current_scope_def resetState_def
          put_scope_def new_ExclusionData_def new_ExclusionScope_def
          getTotalExclusionCount_def scope_getTotalExclusionCount_def list_sizes_def)
  have h: "fileExists ex_fs ''big.el''"
    "maxFileSize (p_config ex_parser) < getFileSize ex_fs ''big.el''"
    "currentScope ex_parser = ''top''"
    "currentScope (snd (parseFile ex_fs ''big.el'' ex_parser)) = []"
    unfolding failed
    by (simp_all add: ex_fs_def ex_parser_eval default_ParserConfig_def resetState_def)
  show ?thesis
    using h with_scope without by blast
qed

text \<open>
  C6, amended. When the file exists and is larger than the configured maximum (100 MB by
  default), \<open>parseFile\<close> returns a failed result with a message, the database of the
  parser is the one it had and no scope is created; of the state of the parser the call
  changes the per-parse cursor only (current scope, buffered checksum, module flag, pending
  annotation, line number), which it resets before the test, as every parse entry point
  does first.
\<close>

theorem parseFile_oversize:
  "fileExists fs filename \<Longrightarrow> maxFileSize (p_config p) < getFileSize fs filename \<Longrightarrow>
   \<not> success (fst (parseFile fs filename p))
   \<and> errorMessage (fst (parseFile fs filename p)) \<noteq> []
   \<and> p_data (snd (parseFile fs filename p)) = p_data p
   \<and> getScopeCount (p_data (snd (parseFile fs filename p))) = getScopeCount (p_data p)
   \<and> snd (parseFile fs filename p) = resetState p
   \<and> maxFileSize default_ParserConfig = 100 * 1024 * 1024"
  by (simp add: parseFile_def Let_def resetState_def new_ParseResult_def
        default_ParserConfig_def)

theorem parseFile_oversize_witness:
  "fileExists ex_fs ''big.el''
   \<and> maxFileSize (p_config ex_parser) < getFileSize ex_fs ''big.el''
   \<and> \<not> success (fst (parseFile ex_fs ''big.el'' ex_parser))
   \<and> errorMessage (fst (parseFile ex_fs ''big.el'' ex_parser)) \<noteq> []
   \<and> p_data (snd (parseFile ex_fs ''big.el'' ex_parser)) = p_data ex_parser
   \<and> getScopeCount (p_data (snd (parseFile ex_fs ''big.el'' ex_parser))) = 1"
proof -
  have h1: "fileExists ex_fs ''big.el''"
    by (simp add: ex_fs_def)
  have h2: "maxFileSize (p_config ex_parser) < getFileSize ex_fs ''big.el''"
    by (simp add: ex_fs_def ex_parser_eval default_ParserConfig_def)
  have n: "getScopeCount (p_data ex_parser) = 1"
    by (simp add: ex_parser_eval getScopeCount_def put_scope_def new_ExclusionData_def)
  from parseFile_oversize [OF h1 h2] h1 h2 n show ?thesis
    by (simp add: resetState_def)
qed

section \<open>Facts about the string primitives\<close>

lemma find_first_Some_0: "find_first pat s = Some 0 \<longleftrightarrow> prefix pat s"
  by (cases s) (auto split: if_splits)

lemma starts_with_prefix: "starts_with s pat \<longleftrightarrow> prefix pat s"
  by (cases "find_first pat s") (simp_all add: starts_with_def str_find_def flip: find_first_Some_0)




lemma find_first_char_absent: "c \<notin> set s \<Longrightarrow> find_first [c] s = None"
  by (induction s) auto

lemma find_first_char_skip: "c \<notin> set u \<Longrightarrow> find_first [c] (u @ c # v) = Some (length u)"
  by (induction u) auto

lemma chr_find_skip:
  assumes "pos \<le> length u" and "c \<notin> set (drop pos u)"
  shows "chr_find (u @ c # v) c pos = Some (length u)"
proof -
  have "drop pos (u @ c # v) = drop pos u @ c # v"
    using assms(1) by simp
  then show ?thesis
    using assms by (simp add: chr_find_def str_find_def find_first_char_skip)
qed

lemma chr_find_absent:
  "c \<notin> set (drop pos s) \<Longrightarrow> chr_find s c pos = None"
  by (simp add: chr_find_def str_find_def find_first_char_absent)




lemma extractQuotedString_none:
  "dquote \<notin> set (drop pos s) \<Longrightarrow> extractQuotedString s pos = ([], length s)"
  by (simp add: extractQuotedString_def chr_find_absent)

lemma trim_id:
  "s \<noteq> [] \<Longrightarrow> \<not> is_trim_char (hd s) \<Longrightarrow> \<not> is_trim_char (last s) \<Longrightarrow> trim s = s"
proof -
  assume a: "s \<noteq> []" "\<not> is_trim_char (hd s)" "\<not> is_trim_char (last s)"
  then have "dropWhile is_trim_char s = s"
    by (cases s) simp_all
  moreover have "dropWhile is_trim_char (rev s) = rev s"
    using a by (cases "rev s") (simp_all add: hd_rev)
  ultimately show ?thesis
    by (simp add: trim_def)
qed

lemma trim_Cons: "is_trim_char c \<Longrightarrow> trim (c # s) = trim s"
  by (simp add: trim_def)




section \<open>Each line of the format, as the parser reads it\<close>


lemma session_of_line_number [simp]:
  "session_of (p\<lparr>currentLineNumber := n\<rparr>) = session_of p"
  by (simp add: session_of_def)

lemma session_of_last_result [simp]:
  "session_of (p\<lparr>lastResult := lr\<rparr>) = session_of p"
  by (simp add: session_of_def)

lemma session_of_pending: "s_pending (session_of p) = pendingAnnotation p"
  by (simp add: session_of_def)


lemma header_free_parseHeader: "header_free line \<Longrightarrow> parseHeader line p = (False, p)"
  by (simp add: header_free_def parseHeader_def)


















lemma after_colon_at:
  "CHR '':'' \<notin> set pre \<Longrightarrow> rest \<noteq> []
   \<Longrightarrow> after_colon (pre @ CHR '':'' # rest) = Some (trim rest)"
  using chr_find_skip [of 0 pre "CHR '':''" rest]
  by (simp add: after_colon_def substr_from_def)

lemma strip_quotes_quoted: "strip_quotes (dquote # s @ [dquote]) = s"
  by (simp add: strip_quotes_def substr_def)

lemma trim_quoted: "trim (CHR '' '' # dquote # s @ [dquote]) = dquote # s @ [dquote]"
  by (simp add: trim_Cons is_trim_char_def trim_id dquote_def)














section \<open>Classification of the lines of the format\<close>








lemma process_line_parsed:
  assumes "trim raw = line" and "line \<noteq> []" and "\<not> isComment line"
    and "classify line (r\<lparr>linesProcessed := linesProcessed r + 1\<rparr>)
           (p\<lparr>currentLineNumber := currentLineNumber p + 1\<rparr>) = (True, r2, p2)"
  shows "process_line raw (r, p) = Inr (r2, p2)"
  using assms by (simp add: process_line_def Let_def)










section \<open>Parsing a document line by line\<close>









section \<open>Checksum validation\<close>

lemma validateChecksum_iff:
  "validateChecksum cs \<longleftrightarrow> cs \<noteq> [] \<and> checksum_shape_spec cs"
  by (simp add: validateChecksum_def checksum_shape_spec_def)

text \<open>
  C9, as stated, fails at the empty string: each of its (no) characters is a digit or a
  space, and the check rejects it.
\<close>

theorem validateChecksum_rejects_empty:
  "checksum_shape_spec [] \<and> \<not> validateChecksum []"
  by (simp add: validateChecksum_def checksum_shape_spec_def)

lemma keyword_line:
  assumes "starts_with line (c # pat)" and "c \<noteq> CHR ''/''" and "c \<noteq> CHR ''=''"
  shows "line \<noteq> []" and "\<not> isComment line"
proof -
  from assms(1) obtain rest where line: "line = c # rest"
    by (auto simp: starts_with_prefix prefix_def)
  show "line \<noteq> []" by (simp add: line)
  show "\<not> isComment line"
    using assms(2,3) by (intro not_isComment) (simp_all add: line)
qed

text \<open>
  C9, amended. The check accepts exactly the non-empty strings whose every character is a
  digit or a space. A \<open>CHECKSUM:\<close> line (one that holds none of the four header markers,
  which the header parser would take first) is never fatal, whether or not its checksum
  passes the check, whether or not validation is enabled and also in strict mode: the loop
  of \<open>parseStream\<close> accepts the line, buffers the checksum as it stands and goes on to
  the next line, with no error message, the database, the current scope and the pending
  annotation as they were.
\<close>

theorem validateChecksum_amended:
  "(validateChecksum cs \<longleftrightarrow> cs \<noteq> [] \<and> checksum_shape_spec cs)
   \<and> ((trim raw = line \<and> header_free line \<and> starts_with line ''CHECKSUM:''
        \<and> after_colon line = Some v)
       \<longrightarrow> (\<exists>r' p'. process_line raw (r, p) = Inr (r', p')
              \<and> errorMessage r' = errorMessage r
              \<and> exclusionsParsed r' = exclusionsParsed r
              \<and> currentChecksum p' = strip_quotes v
              \<and> p_data p' = p_data p \<and> currentScope p' = currentScope p
              \<and> pendingAnnotation p' = pendingAnnotation p))"
proof (intro conjI impI)
  show "validateChecksum cs \<longleftrightarrow> cs \<noteq> [] \<and> checksum_shape_spec cs"
    by (rule validateChecksum_iff)
next
  assume a: "trim raw = line \<and> header_free line \<and> starts_with line ''CHECKSUM:''
      \<and> after_colon line = Some v"
  let ?r = "r\<lparr>linesProcessed := linesProcessed r + 1\<rparr>"
  let ?q = "p\<lparr>currentLineNumber := currentLineNumber p + 1\<rparr>"
  let ?p' = "snd (parseChecksum line ?q)"
  have shape: "line \<noteq> []" "\<not> isComment line"
    using a keyword_line [of line "CHR ''C''" "''HECKSUM:''"] by simp_all
  have "parseHeader line ?q = (False, ?q)"
    using a by (intro header_free_parseHeader) simp
  moreover have "fst (parseChecksum line ?q)"
    using a by (simp add: parseChecksum_def)
  ultimately have "classify line ?r ?q = (True, ?r, ?p')"
    by (simp add: classify_def)
  from process_line_parsed [OF _ shape this, of raw] a
  have step: "process_line raw (r, p) = Inr (?r, ?p')" by simp
  have "currentChecksum ?p' = strip_quotes v" "p_data ?p' = p_data p"
    "currentScope ?p' = currentScope p" "pendingAnnotation ?p' = pendingAnnotation p"
    using a by (simp_all add: parseChecksum_def addWarning_def Let_def)
  with step show "\<exists>r' p'. process_line raw (r, p) = Inr (r', p')
      \<and> errorMessage r' = errorMessage r
      \<and> exclusionsParsed r' = exclusionsParsed r
      \<and> currentChecksum p' = strip_quotes v
      \<and> p_data p' = p_data p \<and> currentScope p' = currentScope p
      \<and> pendingAnnotation p' = pendingAnnotation p"
    by simp
qed

theorem validateChecksum_amended_witness:
  \<open>validateChecksum ''1104 666'' \<and> \<not> validateChecksum ''12a4''
   \<and> validateChecksums (p_config ex_strict) \<and> strictMode (p_config ex_strict)
   \<and> trim ''  CHECKSUM: "12a4"'' = ''CHECKSUM: "12a4"''
   \<and> header_free ''CHECKSUM: "12a4"''
   \<and> starts_with ''CHECKSUM: "12a4"'' ''CHECKSUM:''
   \<and> after_colon ''CHECKSUM: "12a4"'' = Some ''"12a4"''
   \<and> strip_quotes ''"12a4"'' = ''12a4''
   \<and> (\<exists>r' p'. process_line ''  CHECKSUM: "12a4"'' (new_ParseResult, ex_strict) = Inr (r', p')
         \<and> errorMessage r' = [] \<and> exclusionsParsed r' = 0
         \<and> currentChecksum p' = ''12a4''
         \<and> p_data p' = p_data ex_parser \<and> currentScope p' = ''top''
         \<and> pendingAnnotation p' = [])\<close>
proof -
  have v: \<open>validateChecksum ''1104 666''\<close> \<open>\<not> validateChecksum ''12a4''\<close>
    using validateChecksum_amended [of "''1104 666''"] validateChecksum_amended [of "''12a4''"]
    by (simp_all add: checksum_shape_spec_def checksum_char_def isdigit_def)
  have c: \<open>validateChecksums (p_config ex_strict)\<close> \<open>strictMode (p_config ex_strict)\<close>
    by (simp_all add: ex_strict_def ex_parser_eval default_ParserConfig_def)
  have h: \<open>trim ''  CHECKSUM: "12a4"'' = ''CHECKSUM: "12a4"''\<close>
    \<open>header_free ''CHECKSUM: "12a4"''\<close>
    \<open>starts_with ''CHECKSUM: "12a4"'' ''CHECKSUM:''\<close>
    \<open>after_colon ''CHECKSUM: "12a4"'' = Some ''"12a4"''\<close>
    \<open>strip_quotes ''"12a4"'' = ''12a4''\<close>
    by (simp_all add: after_colon_def strip_quotes_def header_free_def string_eval)
  have e: "errorMessage new_ParseResult = []" "exclusionsParsed new_ParseResult = 0"
    "p_data ex_strict = p_data ex_parser" "currentScope ex_strict = ''top''"
    "pendingAnnotation ex_strict = []"
    by (simp_all add: new_ParseResult_def ex_strict_def ex_parser_eval)
  from validateChecksum_amended [of "[]" \<open>''  CHECKSUM: "12a4"''\<close> \<open>''CHECKSUM: "12a4"''\<close>
      \<open>''"12a4"''\<close> new_ParseResult ex_strict] h
  show ?thesis
    using v c h unfolding e h(5) by blast
qed


section \<open>Exclusion lines outside a scope\<close>

lemma in_current_scope_none: "currentScope p = [] \<Longrightarrow> in_current_scope add p = p"
  by (simp add: in_current_scope_def)

lemma exclusion_parsers_without_scope:
  assumes "currentScope p = []"
  shows "snd (parseBlockExclusion line p) = p"
    and "snd (parseToggleExclusion line p) = p"
    and "snd (parseFsmExclusion line p) = p"
    and "snd (parseConditionExclusion line p) = p"
    and "snd (parseTransition line p) = p"
  using assms
  by (simp_all add: parseBlockExclusion_def parseToggleExclusion_def parseFsmExclusion_def
        parseConditionExclusion_def parseTransition_def in_current_scope_none Let_def split_def
        split: option.splits)

lemma acceptance_ignores_parser:
  "fst (parseHeader line p) = fst (parseHeader line q)"
  "fst (parseChecksum line p) = fst (parseChecksum line q)"
  "fst (parseScope line p) = fst (parseScope line q)"
  "fst (parseAnnotation line p) = fst (parseAnnotation line q)"
  "fst (parseBlockExclusion line p) = fst (parseBlockExclusion line q)"
  "fst (parseToggleExclusion line p) = fst (parseToggleExclusion line q)"
  "fst (parseFsmExclusion line p) = fst (parseFsmExclusion line q)"
  "fst (parseConditionExclusion line p) = fst (parseConditionExclusion line q)"
  "fst (parseTransition line p) = fst (parseTransition line q)"
  by (simp_all add: parseHeader_def parseChecksum_def parseScope_def parseAnnotation_def
        parseBlockExclusion_def parseToggleExclusion_def parseFsmExclusion_def
        parseConditionExclusion_def parseTransition_def Let_def split_def
        split: option.splits)

lemma count_of_incr: "count_of (count_incr ty m) ty = count_of m ty + 1"
  by (simp add: count_of_def count_incr_def update_conv')

lemma counted_fields:
  "exclusionsParsed (counted ty r) = exclusionsParsed r + 1"
  "count_of (exclusionCounts (counted ty r)) ty = count_of (exclusionCounts r) ty + 1"
  "warnings (counted ty r) = warnings r"
  "errorMessage (counted ty r) = errorMessage r"
  "linesProcessed (counted ty r) = linesProcessed r"
  by (simp_all add: counted_def count_of_incr)

lemma keyword_acceptance:
  "fst (parseBlockExclusion line p) = starts_with line ''Block ''"
  "fst (parseToggleExclusion line p) = starts_with line ''Toggle ''"
  "fst (parseFsmExclusion line p) = starts_with line ''Fsm ''"
  "fst (parseConditionExclusion line p) = starts_with line ''Condition ''"
  "fst (parseTransition line p) \<Longrightarrow> starts_with line ''Transition ''"
  by (simp_all add: parseBlockExclusion_def parseToggleExclusion_def parseFsmExclusion_def
        parseConditionExclusion_def parseTransition_def Let_def split_def split: if_splits)

lemma count_of_incr_other: "ty' \<noteq> ty \<Longrightarrow> count_of (count_incr ty m) ty' = count_of m ty'"
  by (simp add: count_of_def count_incr_def update_conv')

lemma classify_keyword_without_scope:
  assumes noscope: "currentScope p = []"
    and earlier: "\<not> fst (parseHeader line p)" "\<not> fst (parseChecksum line p)"
      "\<not> fst (parseScope line p)" "\<not> fst (parseAnnotation line p)"
    and excl: "fst (parseBlockExclusion line p) \<or> fst (parseToggleExclusion line p)
      \<or> fst (parseFsmExclusion line p) \<or> fst (parseConditionExclusion line p)
      \<or> fst (parseTransition line p)"
  shows "\<exists>ty. keyword_kind line = Some ty \<and> classify line r p = (True, counted ty r, p)"
  using earlier excl keyword_acceptance(5) [of line p]
  by (auto simp: classify_def exclusion_parsers_without_scope [OF noscope] keyword_kind_def
        keyword_acceptance(1-4))

text \<open>
  C10. Let no scope be current, and let the line just read be an exclusion line: not
  blank, not a comment, not taken by the header, checksum, scope or annotation parsers
  that come first, and accepted by one of the five exclusion parsers. Then the line starts
  with one of the five keywords, and the loop goes on to the next line with the line counted
  in \<open>exclusionsParsed\<close> and under the kind of its keyword, and under no other kind, with
  no warning and no error message added; the parser is as before apart from its line
  number: same database (no scope, no record), same pending annotation.
\<close>

theorem exclusion_line_without_scope:
  assumes "currentScope p = []"
    and "trim raw \<noteq> []" and "\<not> isComment (trim raw)"
    and "\<not> fst (parseHeader (trim raw) p)" and "\<not> fst (parseChecksum (trim raw) p)"
    and "\<not> fst (parseScope (trim raw) p)" and "\<not> fst (parseAnnotation (trim raw) p)"
    and "fst (parseBlockExclusion (trim raw) p) \<or> fst (parseToggleExclusion (trim raw) p)
      \<or> fst (parseFsmExclusion (trim raw) p) \<or> fst (parseConditionExclusion (trim raw) p)
      \<or> fst (parseTransition (trim raw) p)"
  shows "\<exists>r' p' ty. process_line raw (r, p) = Inr (r', p')
      \<and> keyword_kind (trim raw) = Some ty
      \<and> exclusionsParsed r' = exclusionsParsed r + 1
      \<and> count_of (exclusionCounts r') ty = count_of (exclusionCounts r) ty + 1
      \<and> (\<forall>ty'. ty' \<noteq> ty \<longrightarrow> count_of (exclusionCounts r') ty' = count_of (exclusionCounts r) ty')
      \<and> warnings r' = warnings r \<and> errorMessage r' = errorMessage r
      \<and> p' = p\<lparr>currentLineNumber := currentLineNumber p + 1\<rparr>
      \<and> p_data p' = p_data p \<and> pendingAnnotation p' = pendingAnnotation p
      \<and> currentScope p' = []"
proof -
  let ?q = "p\<lparr>currentLineNumber := currentLineNumber p + 1\<rparr>"
  let ?r1 = "r\<lparr>linesProcessed := linesProcessed r + 1\<rparr>"
  have noscope: "currentScope ?q = []"
    using assms(1) by simp
  have earlier: "\<not> fst (parseHeader (trim raw) ?q)" "\<not> fst (parseChecksum (trim raw) ?q)"
    "\<not> fst (parseScope (trim raw) ?q)" "\<not> fst (parseAnnotation (trim raw) ?q)"
    using assms(4-7) acceptance_ignores_parser [of "trim raw" ?q p] by simp_all
  have excl: "fst (parseBlockExclusion (trim raw) ?q) \<or> fst (parseToggleExclusion (trim raw) ?q)
      \<or> fst (parseFsmExclusion (trim raw) ?q) \<or> fst (parseConditionExclusion (trim raw) ?q)
      \<or> fst (parseTransition (trim raw) ?q)"
    using assms(8) acceptance_ignores_parser [of "trim raw" ?q p] by simp
  from classify_keyword_without_scope [OF noscope earlier excl, of ?r1]
  obtain ty where k: "keyword_kind (trim raw) = Some ty"
    and c: "classify (trim raw) ?r1 ?q = (True, counted ty ?r1, ?q)"
    by blast
  have step: "process_line raw (r, p) = Inr (counted ty ?r1, ?q)"
    using assms(2,3) c by (simp add: process_line_def Let_def)
  have others: "\<forall>ty'. ty' \<noteq> ty
      \<longrightarrow> count_of (exclusionCounts (counted ty ?r1)) ty' = count_of (exclusionCounts r) ty'"
    by (simp add: counted_def count_of_incr_other)
  have "process_line raw (r, p) = Inr (counted ty ?r1, ?q)
      \<and> keyword_kind (trim raw) = Some ty
      \<and> exclusionsParsed (counted ty ?r1) = exclusionsParsed r + 1
      \<and> count_of (exclusionCounts (counted ty ?r1)) ty = count_of (exclusionCounts r) ty + 1
      \<and> (\<forall>ty'. ty' \<noteq> ty
           \<longrightarrow> count_of (exclusionCounts (counted ty ?r1)) ty' = count_of (exclusionCounts r) ty')
      \<and> warnings (counted ty ?r1) = warnings r \<and> errorMessage (counted ty ?r1) = errorMessage r
      \<and> ?q = p\<lparr>currentLineNumber := currentLineNumber p + 1\<rparr>
      \<and> p_data ?q = p_data p \<and> pendingAnnotation ?q = pendingAnnotation p
      \<and> currentScope ?q = []"
    using step k others assms(1) by (simp add: counted_fields)
  then show ?thesis
    by blast
qed

theorem exclusion_line_without_scope_witness:
  \<open>currentScope ex_pending = []
   \<and> keyword_kind ''Toggle 1to0 clk "net clk"'' = Some TOGGLE
   \<and> process_line ''Toggle 1to0 clk "net clk"'' (new_ParseResult, ex_pending)
      = Inr (new_ParseResult\<lparr>linesProcessed := 1, exclusionsParsed := 1,
                             exclusionCounts := [(TOGGLE, 1)]\<rparr>,
             ex_pending\<lparr>currentLineNumber := 1\<rparr>)
   \<and> keyword_kind ''Transition IDLE->RUN "11"'' = Some FSM
   \<and> process_line ''Transition IDLE->RUN "11"'' (new_ParseResult, ex_pending)
      = Inr (new_ParseResult\<lparr>linesProcessed := 1, exclusionsParsed := 1,
                             exclusionCounts := [(FSM, 1)]\<rparr>,
             ex_pending\<lparr>currentLineNumber := 1\<rparr>)\<close>
proof -
  let ?a = \<open>''Toggle 1to0 clk "net clk"''\<close>
  let ?b = \<open>''Transition IDLE->RUN "11"''\<close>
  have t: "trim ?a = ?a" "trim ?b = ?b"
    by (simp_all add: string_eval)
  have h1: "currentScope ex_pending = []"
    by (simp add: ex_pending_def new_ExclusionParser_def resetState_def)
  have h2: "trim ?a \<noteq> []" "\<not> isComment (trim ?a)" "trim ?b \<noteq> []" "\<not> isComment (trim ?b)"
    unfolding t by (simp_all add: not_isComment)
  have h3: "\<not> fst (parseHeader (trim ?a) ex_pending)" "\<not> fst (parseChecksum (trim ?a) ex_pending)"
    "\<not> fst (parseScope (trim ?a) ex_pending)" "\<not> fst (parseAnnotation (trim ?a) ex_pending)"
    "\<not> fst (parseHeader (trim ?b) ex_pending)" "\<not> fst (parseChecksum (trim ?b) ex_pending)"
    "\<not> fst (parseScope (trim ?b) ex_pending)" "\<not> fst (parseAnnotation (trim ?b) ex_pending)"
    unfolding t
    by (simp_all add: parseHeader_def parseChecksum_def parseScope_def parseAnnotation_def
          string_eval)
  have tr: "fst (parseTransition ?b ex_pending)"
    by (simp add: parseTransition_def string_eval)
  have h4: "fst (parseBlockExclusion (trim ?a) ex_pending)
      \<or> fst (parseToggleExclusion (trim ?a) ex_pending)
      \<or> fst (parseFsmExclusion (trim ?a) ex_pending)
      \<or> fst (parseConditionExclusion (trim ?a) ex_pending)
      \<or> fst (parseTransition (trim ?a) ex_pending)"
    "fst (parseBlockExclusion (trim ?b) ex_pending)
      \<or> fst (parseToggleExclusion (trim ?b) ex_pending)
      \<or> fst (parseFsmExclusion (trim ?b) ex_pending)
      \<or> fst (parseConditionExclusion (trim ?b) ex_pending)
      \<or> fst (parseTransition (trim ?b) ex_pending)"
    unfolding t using tr by (simp_all add: keyword_acceptance string_eval)
  have k: "keyword_kind ?a = Some TOGGLE" "keyword_kind ?b = Some FSM"
    by (simp_all add: keyword_kind_def string_eval)
  have fresh: "exclusionsParsed new_ParseResult = 0" "exclusionCounts new_ParseResult = []"
    "warnings new_ParseResult = []" "errorMessage new_ParseResult = []"
    by (simp_all add: new_ParseResult_def)
  from exclusion_line_without_scope [OF h1 h2(1,2) h3(1-4) h4(1), of new_ParseResult]
  obtain ra pa where a: "process_line ?a (new_ParseResult, ex_pending) = Inr (ra, pa)"
    "exclusionsParsed ra = 1" "count_of (exclusionCounts ra) TOGGLE = 1"
    "pa = ex_pending\<lparr>currentLineNumber := currentLineNumber ex_pending + 1\<rparr>"
    unfolding t k fresh by (auto simp: count_of_def)
  from exclusion_line_without_scope [OF h1 h2(3,4) h3(5-8) h4(2), of new_ParseResult]
  obtain rb pb where b: "process_line ?b (new_ParseResult, ex_pending) = Inr (rb, pb)"
    "exclusionsParsed rb = 1" "count_of (exclusionCounts rb) FSM = 1"
    "pb = ex_pending\<lparr>currentLineNumber := currentLineNumber ex_pending + 1\<rparr>"
    unfolding t k fresh by (auto simp: count_of_def)
  have n: "currentLineNumber ex_pending = 0"
    by (simp add: ex_pending_def new_ExclusionParser_def resetState_def)
  have ca: "classify ?a r ex_q = (True, counted TOGGLE r, ex_q)" if "currentScope ex_q = []" for r ex_q
    using that
    by (simp add: classify_def parseHeader_def parseChecksum_def parseScope_def
          parseAnnotation_def parseBlockExclusion_def keyword_acceptance
          exclusion_parsers_without_scope string_eval)
  have cb: "classify ?b r ex_q = (True, counted FSM r, ex_q)"
    if "currentScope ex_q = []" "fst (parseTransition ?b ex_q)" for r ex_q
    using that
    by (simp add: classify_def parseHeader_def parseChecksum_def parseScope_def
          parseAnnotation_def keyword_acceptance
          exclusion_parsers_without_scope string_eval)
  have ra: "ra = new_ParseResult\<lparr>linesProcessed := 1, exclusionsParsed := 1,
                             exclusionCounts := [(TOGGLE, 1)]\<rparr>"
    using a(1) h1 h2(1,2) unfolding process_line_def t
    by (simp add: Let_def ca counted_def count_incr_def count_of_def new_ParseResult_def)
  have tr': "fst (parseTransition ?b (ex_pending\<lparr>currentLineNumber := currentLineNumber ex_pending + 1\<rparr>))"
    using tr acceptance_ignores_parser(9) by blast
  have rb: "rb = new_ParseResult\<lparr>linesProcessed := 1, exclusionsParsed := 1,
                             exclusionCounts := [(FSM, 1)]\<rparr>"
    using b(1) h1 h2(3,4) tr' unfolding process_line_def t
    by (simp add: Let_def cb counted_def count_incr_def count_of_def new_ParseResult_def)
  show ?thesis
    using h1 k a(1) b(1) unfolding ra rb a(4) b(4) n by simp
qed


section \<open>Well-formed lines\<close>













section \<open>The databases that the parser builds\<close>













section \<open>The text of a document\<close>







section \<open>The document of the writer\<close>































section \<open>Reading the document of the writer\<close>















section \<open>The maps that the parser rebuilds\<close>





































section \<open>What a round trip keeps\<close>

















section \<open>Writing a database and parsing it again\<close>






text \<open>
  An annotation with a double quote is outside the grammar: the writer puts a backslash
  before the quote, and the parser returns the text with the backslash.
\<close>

lemma annotation_read_back:
  "parseAnnotation (annotation_line a) p = (True, p\<lparr>pendingAnnotation := escapeString a\<rparr>)"
proof -
  have line: "annotation_line a
      = ''ANNOTATION'' @ CHR '':'' # (CHR '' '' # dquote # escapeString a @ [dquote])"
    by (simp add: annotation_line_def)
  have "after_colon (annotation_line a) = Some (dquote # escapeString a @ [dquote])"
    unfolding line by (subst after_colon_at) (simp_all add: trim_quoted)
  moreover have "starts_with (annotation_line a) ''ANNOTATION:''"
    by (simp add: line starts_with_prefix)
  ultimately show ?thesis
    by (simp add: parseAnnotation_def strip_quotes_quoted)
qed

lemma escapeString_longer: "dquote \<in> set a \<Longrightarrow> length a < length (escapeString a)"
proof -
  have "length a \<le> length (escapeString a)" for a
    by (induction a) (simp_all add: escapeString_def)
  moreover assume "dquote \<in> set a"
  ultimately show ?thesis
    by (induction a) (auto simp: escapeString_def le_imp_less_Suc)
qed

text \<open>
  The two line endings that \<open>WriterConfig\<close> documents, \<open>"\\n"\<close> and \<open>"\\r\\n"\<close>, are
  white space that ends in its only newline.
\<close>

lemma documented_line_endings:
  assumes "le = [CHR 0x0A] \<or> le = [CHR 0x0D, CHR 0x0A]"
  shows "\<exists>ending. le = ending @ [newline] \<and> list_all is_trim_char ending \<and> newline \<notin> set ending"
proof -
  from assms consider "le = [] @ [newline]" | "le = [CHR 0x0D] @ [newline]"
    by (auto simp: newline_def)
  then show ?thesis
  proof cases
    case 1
    then show ?thesis by (intro exI [of _ "[]"]) simp
  next
    case 2
    then show ?thesis
      by (intro exI [of _ "[CHR 0x0D]"]) (simp add: is_trim_char_def newline_def)
  qed
qed



end
